theory Spec2Isabelle
  imports Complex_Main "HOL-Library.Log_Nat"
begin

section \<open>Shared types (types.ts)\<close>

text \<open>
  The nine game identifiers and the three difficulty levels of \<^verbatim>\<open>types.ts\<close>.
  A JavaScript \<^verbatim>\<open>number\<close> that always holds an integer (a score, a
  counter, a rounded reaction time) is an \<^typ>\<open>int\<close>: integers below \<open>2 ^ 53\<close> are
  doubles, and their sums, differences and products are exact. A \<^verbatim>\<open>number\<close> that
  holds a fraction (elapsed seconds, a ratio, a clock reading) is the \<^typ>\<open>rat\<close> that the
  double stands for, and each operation of the program that can round (a division, a
  product or a sum with a fraction) is followed by \<open>dbl\<close>, the rounding to the nearest
  double, defined with the scoring utilities below.
\<close>

datatype GameId =
  memory | schulte | stroop | wordSort | pathMemory | reaction | digitSpan | arithmetic
  | patternReason

datatype Difficulty = easy | normal | hard

text \<open>
  \<^verbatim>\<open>interface Scores\<close>: one \<^verbatim>\<open>number | null\<close> per game identifier, read and
  written through a computed key (\<^verbatim>\<open>best[gameId]\<close>), so a map from identifiers
  where \<^const>\<open>None\<close> is \<^verbatim>\<open>null\<close>.
\<close>

type_synonym Scores = "GameId \<rightharpoonup> int"

text \<open>\<^verbatim>\<open>GAMES\<close>: the configuration list, reduced to the \<^verbatim>\<open>id\<close> field, in its order.\<close>

definition GAMES :: "GameId list" where
  "GAMES = [memory, schulte, stroop, wordSort, pathMemory, reaction, digitSpan, arithmetic,
            patternReason]"

fun MAX_SCORES :: "GameId \<Rightarrow> Difficulty \<Rightarrow> int" where
  "MAX_SCORES memory easy = 300"
| "MAX_SCORES memory normal = 600"
| "MAX_SCORES memory hard = 920"
| "MAX_SCORES schulte easy = 800"
| "MAX_SCORES schulte normal = 800"
| "MAX_SCORES schulte hard = 800"
| "MAX_SCORES stroop easy = 600"
| "MAX_SCORES stroop normal = 800"
| "MAX_SCORES stroop hard = 800"
| "MAX_SCORES wordSort easy = 400"
| "MAX_SCORES wordSort normal = 600"
| "MAX_SCORES wordSort hard = 800"
| "MAX_SCORES pathMemory easy = 1050"
| "MAX_SCORES pathMemory normal = 2250"
| "MAX_SCORES pathMemory hard = 2450"
| "MAX_SCORES reaction easy = 800"
| "MAX_SCORES reaction normal = 800"
| "MAX_SCORES reaction hard = 800"
| "MAX_SCORES digitSpan easy = 600"
| "MAX_SCORES digitSpan normal = 1200"
| "MAX_SCORES digitSpan hard = 2000"
| "MAX_SCORES arithmetic easy = 500"
| "MAX_SCORES arithmetic normal = 800"
| "MAX_SCORES arithmetic hard = 1000"
| "MAX_SCORES patternReason easy = 500"
| "MAX_SCORES patternReason normal = 800"
| "MAX_SCORES patternReason hard = 1000"

section \<open>Scoring utilities (utils/scoring.ts)\<close>

text \<open>
  \<^verbatim>\<open>Math.round\<close> returns the nearest integer, a tie going towards plus infinity:
  the floor of the argument plus one half.
\<close>

definition Math_round :: "rat \<Rightarrow> int" where
  "Math_round x = \<lfloor>x + 1 / 2\<rfloor>"

text \<open>
  The arithmetic of \<^verbatim>\<open>number\<close>: IEEE 754 binary64, every operation returning the
  double nearest to the exact result, a tie going to the even significand. \<open>expo x\<close> is
  the binary exponent of a positive \<open>x\<close> (\<open>2 powi expo x \<le> x < 2 powi (expo x + 1)\<close>), a
  double with this exponent is a multiple of \<open>2 powi (expo x - 52)\<close>, and \<open>dbl x\<close> is the
  nearest such multiple. The exponent is not bounded: overflow and the subnormal
  numbers, outside \<open>2 powi (- 1022)\<close> to \<open>2 powi 1024\<close>, are not modelled.
\<close>

definition expo :: "rat \<Rightarrow> int" where
  "expo x = (let (p, q) = quotient_of x; e = bitlen p - bitlen q
             in if 2 powi e \<le> x then e else e - 1)"

definition roundHalfEven :: "rat \<Rightarrow> int" where
  "roundHalfEven q =
     (let f = \<lfloor>q\<rfloor>; d = q - of_int f
      in if d < 1 / 2 then f else if 1 / 2 < d then f + 1 else if even f then f else f + 1)"

definition dbl :: "rat \<Rightarrow> rat" where
  "dbl x = (if x = 0 then 0
            else (let u = 2 powi (expo \<bar>x\<bar> - 52) in of_int (roundHalfEven (x / u)) * u))"

text \<open>
  The body of \<^verbatim>\<open>normalizeScore\<close> once \<^verbatim>\<open>max\<close> has been looked up:
  \<^verbatim>\<open>Math.min(100, Math.round((rawScore / max) * 100))\<close>. The quotient is rounded to
  a double, and so is its product with 100.
\<close>

definition normalizeWithMax :: "int \<Rightarrow> int \<Rightarrow> int" where
  "normalizeWithMax rawScore mx =
     min 100 (Math_round (dbl (dbl (of_int rawScore / of_int mx) * 100)))"

definition normalizeScore :: "GameId \<Rightarrow> Difficulty \<Rightarrow> int \<Rightarrow> int" where
  "normalizeScore gameId difficulty rawScore =
     (let mx = MAX_SCORES gameId difficulty in normalizeWithMax rawScore mx)"

section \<open>Result page (components/ResultPage.tsx)\<close>

text \<open>
  \<^verbatim>\<open>playedGames = GAMES.filter(game => scores[game.id] !== null)\<close> and the
  \<^verbatim>\<open>reduce\<close> that adds up the normalized scores, starting from 0 and going through
  the played games from the left. \<^verbatim>\<open>scores[game.id]!\<close> is the stored number; on the
  played games it is never \<^verbatim>\<open>null\<close>.
\<close>

definition playedGames :: "Scores \<Rightarrow> GameId list" where
  "playedGames scores = filter (\<lambda>game. scores game \<noteq> None) GAMES"

definition sumNormalized :: "Scores \<Rightarrow> GameId list \<Rightarrow> int" where
  "sumNormalized scores games =
     foldl (\<lambda>sum game. sum + normalizeScore game normal (the (scores game))) 0 games"

definition average :: "Scores \<Rightarrow> int" where
  "average scores =
     (if length (playedGames scores) > 0
      then Math_round (dbl (of_int (sumNormalized scores (playedGames scores))
                             / of_nat (length (playedGames scores))))
      else 0)"

section \<open>Persistence (utils/storage.ts)\<close>

text \<open>
  A training record (fields \<^verbatim>\<open>gameId\<close>, \<^verbatim>\<open>difficulty\<close>, \<^verbatim>\<open>score\<close>,
  \<^verbatim>\<open>timestamp\<close>). The timestamp is \<^verbatim>\<open>Date.now()\<close>, a parameter of the model.
\<close>

record TrainingRecord =
  tr_gameId :: GameId
  tr_difficulty :: Difficulty
  tr_score :: int
  tr_timestamp :: int

text \<open>
  The two local-storage entries. \<^const>\<open>None\<close> is an entry that is absent or that
  \<^verbatim>\<open>JSON.parse\<close> rejects: both loaders then return their defaults. A stored
  best-scores object is merged over the all-\<^verbatim>\<open>null\<close> defaults, so a key it lacks
  reads as \<^verbatim>\<open>null\<close>.
\<close>

record Storage =
  best_scores :: "Scores option"
  records :: "TrainingRecord list option"

definition loadBestScores :: "Storage \<Rightarrow> Scores" where
  "loadBestScores st = (case best_scores st of Some data \<Rightarrow> data | None \<Rightarrow> Map.empty)"

definition saveBestScore :: "GameId \<Rightarrow> int \<Rightarrow> Storage \<Rightarrow> Storage" where
  "saveBestScore g sc st =
     (let best = loadBestScores st in
      if best g = None \<or> sc > the (best g)
      then st\<lparr>best_scores := Some (best(g \<mapsto> sc))\<rparr>
      else st)"

definition loadRecords :: "Storage \<Rightarrow> TrainingRecord list" where
  "loadRecords st = (case records st of Some data \<Rightarrow> data | None \<Rightarrow> [])"

text \<open>
  \<^verbatim>\<open>records.splice(0, n)\<close> removes the first \<^verbatim>\<open>n\<close> elements in place.
\<close>

definition saveRecord :: "GameId \<Rightarrow> Difficulty \<Rightarrow> int \<Rightarrow> int \<Rightarrow> Storage \<Rightarrow> Storage" where
  "saveRecord g d sc now st =
     (let records0 = loadRecords st;
          records1 = records0 @ [\<lparr>tr_gameId = g, tr_difficulty = d, tr_score = sc, tr_timestamp = now\<rparr>];
          records2 = (if length records1 > 200
                      then drop (length records1 - 200) records1
                      else records1)
      in st\<lparr>records := Some records2\<rparr>)"

text \<open>A sequence of \<^verbatim>\<open>saveRecord\<close> calls, one per record of the list, oldest first.\<close>

fun saveRecords :: "TrainingRecord list \<Rightarrow> Storage \<Rightarrow> Storage" where
  "saveRecords [] st = st"
| "saveRecords (r # rs) st =
     saveRecords rs (saveRecord (tr_gameId r) (tr_difficulty r) (tr_score r) (tr_timestamp r) st)"

text \<open>A sample record, told apart by its timestamp.\<close>

definition mkRecord :: "nat \<Rightarrow> TrainingRecord" where
  "mkRecord i = \<lparr>tr_gameId = schulte, tr_difficulty = normal, tr_score = 700, tr_timestamp = int i\<rparr>"

definition emptyStorage :: Storage where
  "emptyStorage = \<lparr>best_scores = None, records = None\<rparr>"

section \<open>Timers\<close>

text \<open>
  \<^verbatim>\<open>setTimeout\<close> and \<^verbatim>\<open>clearTimeout\<close>. A pending timer is its identifier, the
  time it is due and the callback it runs, the callback being a value of a datatype that
  each game declares (one constructor per closure passed to \<^verbatim>\<open>setTimeout\<close>, with
  the variables the closure captured). Identifiers are handed out in increasing order; the
  list of pending timers is in the order of creation. A ref that holds a timer handle is a
  \<^typ>\<open>nat option\<close>, \<^const>\<open>None\<close> for \<^verbatim>\<open>null\<close>.
\<close>

type_synonym 'cb timer = "nat \<times> rat \<times> 'cb"

definition setTimeout :: "nat \<Rightarrow> rat \<Rightarrow> 'cb \<Rightarrow> 'cb timer list \<Rightarrow> 'cb timer list" where
  "setTimeout ident due cb ts = ts @ [(ident, due, cb)]"

fun clearTimeout :: "nat option \<Rightarrow> 'cb timer list \<Rightarrow> 'cb timer list" where
  "clearTimeout None ts = ts"
| "clearTimeout (Some ident) ts = filter (\<lambda>t. fst t \<noteq> ident) ts"

text \<open>
  The timer that fires next: the one due first and, among timers due at the same time,
  the one created first.
\<close>

fun earliest :: "'cb timer list \<Rightarrow> 'cb timer option" where
  "earliest [] = None"
| "earliest (t # ts) =
     (case earliest ts of
        None \<Rightarrow> Some t
      | Some t' \<Rightarrow> if fst (snd t') < fst (snd t) then Some t' else Some t)"

text \<open>No pending timer is due before the given time.\<close>

definition noneOverdue :: "rat \<Rightarrow> 'cb timer list \<Rightarrow> bool" where
  "noneOverdue now ts = list_all (\<lambda>t. now \<le> fst (snd t)) ts"

text \<open>Reading an array element: \<^verbatim>\<open>undefined\<close> out of range.\<close>

definition at_index :: "'a list \<Rightarrow> nat \<Rightarrow> 'a option" where
  "at_index xs i = (if i < length xs then Some (xs ! i) else None)"

section \<open>Grid search (games/SchulteGrid.tsx)\<close>

record SchulteSettings =
  sg_size :: int
  sg_targetTime :: int

fun SchulteSETTINGS :: "Difficulty \<Rightarrow> SchulteSettings" where
  "SchulteSETTINGS easy = \<lparr>sg_size = 3, sg_targetTime = 20\<rparr>"
| "SchulteSETTINGS normal = \<lparr>sg_size = 4, sg_targetTime = 30\<rparr>"
| "SchulteSETTINGS hard = \<lparr>sg_size = 5, sg_targetTime = 50\<rparr>"

text \<open>\<^verbatim>\<open>calculateScore\<close> of the grid search.\<close>

definition Schulte_calculateScore :: "rat \<Rightarrow> int \<Rightarrow> int \<Rightarrow> int" where
  "Schulte_calculateScore elapsed errors targetTime =
     (let base = 500;
          timeBonus = (if elapsed \<le> of_int targetTime then 300
                       else if elapsed \<le> dbl (of_int targetTime * (3 / 2)) then 200
                       else if elapsed \<le> of_int targetTime * 2 then 100
                       else 0);
          errorPenalty = errors * 20
      in max 0 (base + timeBonus - errorPenalty))"

text \<open>
  The component's state: the \<^verbatim>\<open>useState\<close> cells, \<^verbatim>\<open>finishedRef\<close>, whether the
  100 ms interval and the error-flash timeout exist, the score captured by the pending
  \<^verbatim>\<open>setTimeout(() => onComplete(score), 0)\<close>, and the calls made to
  \<^verbatim>\<open>onComplete\<close> so far, oldest first.
\<close>

record SchulteState =
  sg_numbers :: "int list"
  sg_nextNumber :: int
  sg_completed :: "int list"
  sg_errors :: int
  sg_elapsed :: rat
  sg_started :: bool
  sg_errorCell :: "nat option"
  sg_finished :: bool
  sg_errorTimer :: bool
  sg_pendingComplete :: "int list"
  sg_onComplete :: "int list"

text \<open>The mounted component over a generated grid (\<^verbatim>\<open>generateNumbers\<close> shuffles).\<close>

definition SchulteInit :: "int list \<Rightarrow> SchulteState" where
  "SchulteInit numbers =
     \<lparr>sg_numbers = numbers, sg_nextNumber = 1, sg_completed = [], sg_errors = 0,
      sg_elapsed = 0, sg_started = False, sg_errorCell = None, sg_finished = False,
      sg_errorTimer = False, sg_pendingComplete = [], sg_onComplete = []\<rparr>"

text \<open>
  The interval's callback: \<^verbatim>\<open>Math.round((prev + 0.1) * 10) / 10\<close>. The literal
  \<^verbatim>\<open>0.1\<close> is the double nearest to one tenth, and the sum, the product and the
  quotient are rounded in turn.
\<close>

definition tickElapsed :: "rat \<Rightarrow> rat" where
  "tickElapsed prev = dbl (of_int (Math_round (dbl (dbl (prev + dbl (1 / 10)) * 10))) / 10)"

definition SchulteTick :: "SchulteState \<Rightarrow> SchulteState" where
  "SchulteTick s = (if sg_started s then s\<lparr>sg_elapsed := tickElapsed (sg_elapsed s)\<rparr> else s)"

text \<open>
  \<^verbatim>\<open>handleCellClick\<close> of the grid search. The set \<^verbatim>\<open>completed\<close> is the list of
  its elements in the order they were added.
\<close>

definition Schulte_handleCellClick :: "Difficulty \<Rightarrow> nat \<Rightarrow> SchulteState \<Rightarrow> SchulteState" where
  "Schulte_handleCellClick d index s =
     (let total = sg_size (SchulteSETTINGS d) * sg_size (SchulteSETTINGS d);
          targetTime = sg_targetTime (SchulteSETTINGS d);
          clickedNumber = at_index (sg_numbers s) index
      in if sg_finished s then s
         else if (case clickedNumber of None \<Rightarrow> False | Some n \<Rightarrow> n \<in> set (sg_completed s))
         then s
         else if clickedNumber = Some (sg_nextNumber s)
         then (let newNext = sg_nextNumber s + 1;
                   s1 = s\<lparr>sg_started := True,
                          sg_completed := sg_completed s @ [sg_nextNumber s],
                          sg_nextNumber := newNext\<rparr>
               in if newNext > total
                  then (let finalElapsed = tickElapsed (sg_elapsed s);
                            score = Schulte_calculateScore finalElapsed (sg_errors s) targetTime
                        in s1\<lparr>sg_finished := True, sg_elapsed := finalElapsed,
                               sg_pendingComplete := sg_pendingComplete s @ [score]\<rparr>)
                  else s1)
         else s\<lparr>sg_started := True, sg_errors := sg_errors s + 1,
                sg_errorCell := Some index, sg_errorTimer := True\<rparr>)"

text \<open>The error flash ends after 300 ms.\<close>

definition SchulteErrorTimer :: "SchulteState \<Rightarrow> SchulteState" where
  "SchulteErrorTimer s =
     (if sg_errorTimer s then s\<lparr>sg_errorCell := None, sg_errorTimer := False\<rparr> else s)"

text \<open>The deferred \<^verbatim>\<open>onComplete(score)\<close> runs.\<close>

definition SchulteComplete :: "SchulteState \<Rightarrow> SchulteState" where
  "SchulteComplete s =
     (case sg_pendingComplete s of
        [] \<Rightarrow> s
      | score # rest \<Rightarrow> s\<lparr>sg_pendingComplete := rest, sg_onComplete := sg_onComplete s @ [score]\<rparr>)"

text \<open>The time-tier bonus as the specification words it.\<close>

definition tierBonus :: "rat \<Rightarrow> int \<Rightarrow> int" where
  "tierBonus elapsed target =
     (if elapsed \<le> of_int target then 300
      else if elapsed \<le> 3 / 2 * of_int target then 200
      else if elapsed \<le> 2 * of_int target then 100
      else 0)"

text \<open>
  An easy session just before its last click: the grid \<open>3 1 2 / 9 8 7 / 4 5 6\<close>, the
  numbers 1 to 8 clicked in order, two ticks of the interval after each click.
\<close>

definition SchulteSample :: SchulteState where
  "SchulteSample =
     foldl (\<lambda>s i. SchulteTick (SchulteTick (Schulte_handleCellClick easy i s)))
       (SchulteInit [3, 1, 2, 9, 8, 7, 4, 5, 6]) [1, 2, 0, 6, 7, 8, 5, 4]"

section \<open>Reaction timing (games/ReactionTest.tsx)\<close>

record ReactionSettings =
  rt_trials :: int
  rt_minDelay :: int
  rt_maxDelay :: int
  rt_trickTrials :: bool

fun ReactionSETTINGS :: "Difficulty \<Rightarrow> ReactionSettings" where
  "ReactionSETTINGS easy =
     \<lparr>rt_trials = 8, rt_minDelay = 1500, rt_maxDelay = 3000, rt_trickTrials = False\<rparr>"
| "ReactionSETTINGS normal =
     \<lparr>rt_trials = 12, rt_minDelay = 1000, rt_maxDelay = 4000, rt_trickTrials = False\<rparr>"
| "ReactionSETTINGS hard =
     \<lparr>rt_trials = 15, rt_minDelay = 500, rt_maxDelay = 5000, rt_trickTrials = True\<rparr>"

text \<open>The phases \<^verbatim>\<open>'waiting' | 'ready' | 'signal' | 'result' | 'tooEarly' | 'done'\<close>.\<close>

datatype ReactionPhase = Waiting | Ready | Signal | Result | TooEarly | Done

text \<open>
  \<^verbatim>\<open>Math.floor(Math.random() * (max - min + 1)) + min\<close>; the value of
  \<^verbatim>\<open>Math.random()\<close> is the parameter \<open>u\<close>.
\<close>

definition getRandomDelay :: "rat \<Rightarrow> int \<Rightarrow> int \<Rightarrow> int" where
  "getRandomDelay u mn mx = \<lfloor>dbl (u * of_int (mx - mn + 1))\<rfloor> + mn"

definition calculateTrialScore :: "int \<Rightarrow> int" where
  "calculateTrialScore reactionTime =
     (if reactionTime < 150 then 0 else max 0 (800 - reactionTime))"

text \<open>
  The closures handed to \<^verbatim>\<open>setTimeout\<close>: the mount effect's first
  \<^verbatim>\<open>startTrial\<close>, the delay before the signal (with the captured \<^verbatim>\<open>isTrick\<close>),
  the 150 ms after which a trick signal is hidden, the delay before the real signal of a
  trick trial, and the two callbacks scheduled after a valid click: the next
  \<^verbatim>\<open>startTrial\<close>, or the completion with the captured \<^verbatim>\<open>newReactionTimes\<close>.
\<close>

datatype ReactionCallback =
  FirstTrial
  | DelayElapsed bool
  | TrickElapsed
  | SecondDelayElapsed
  | AdvanceTrial
  | AdvanceComplete "int list"

text \<open>
  The state of a mounted \<^verbatim>\<open>ReactionTest\<close>: the \<^verbatim>\<open>useState\<close> cells, the refs,
  the pending timers, the clock, whether the component is still mounted, and the calls
  made to \<^verbatim>\<open>onComplete\<close> so far, oldest first.
\<close>

record ReactionState =
  rt_phase :: ReactionPhase
  rt_currentTrial :: int
  rt_reactionTimes :: "int list"
  rt_lastReactionTime :: "int option"
  rt_signalTime :: rat
  rt_delayTimeoutRef :: "nat option"
  rt_trickTimeoutRef :: "nat option"
  rt_advanceTimeoutRef :: "nat option"
  rt_isTrickTrial :: bool
  rt_firstTimeout :: "nat option"
  rt_timers :: "ReactionCallback timer list"
  rt_nextId :: nat
  rt_clock :: rat
  rt_mounted :: bool
  rt_onComplete :: "int list"

text \<open>Mounting schedules the first trial after one second.\<close>

definition ReactionInit :: ReactionState where
  "ReactionInit =
     \<lparr>rt_phase = Waiting, rt_currentTrial = 0, rt_reactionTimes = [],
      rt_lastReactionTime = None, rt_signalTime = 0, rt_delayTimeoutRef = None,
      rt_trickTimeoutRef = None, rt_advanceTimeoutRef = None, rt_isTrickTrial = False,
      rt_firstTimeout = Some 0, rt_timers = [(0, 1000, FirstTrial)], rt_nextId = 1,
      rt_clock = 0, rt_mounted = True, rt_onComplete = []\<rparr>"

text \<open>
  \<^verbatim>\<open>startTrial\<close> at time \<open>now\<close>; \<open>u1\<close> and \<open>u2\<close> are the two values of
  \<^verbatim>\<open>Math.random()\<close> it draws (the second only when the difficulty has trick trials).
\<close>

definition startTrial :: "Difficulty \<Rightarrow> rat \<Rightarrow> rat \<Rightarrow> rat \<Rightarrow> ReactionState \<Rightarrow> ReactionState" where
  "startTrial d now u1 u2 s =
     (let settings = ReactionSETTINGS d;
          ts = clearTimeout (rt_trickTimeoutRef s) (clearTimeout (rt_delayTimeoutRef s) (rt_timers s));
          delay = getRandomDelay u1 (rt_minDelay settings) (rt_maxDelay settings);
          isTrick = (rt_trickTrials settings \<and> u2 < dbl (3 / 10))
      in s\<lparr>rt_phase := Ready, rt_lastReactionTime := None, rt_isTrickTrial := False,
            rt_delayTimeoutRef := Some (rt_nextId s),
            rt_timers := setTimeout (rt_nextId s) (now + of_int delay) (DelayElapsed isTrick) ts,
            rt_nextId := rt_nextId s + 1\<rparr>)"

text \<open>
  The parent's \<^verbatim>\<open>handleComplete\<close> (components/GameWrapper.tsx) records the score
  and leaves the \<^verbatim>\<open>playing\<close> phase, which unmounts the game: the cleanup effects
  clear the timers that the three refs and the mount effect hold.
\<close>

definition ReactionOnComplete :: "int \<Rightarrow> ReactionState \<Rightarrow> ReactionState" where
  "ReactionOnComplete sc s =
     (let s1 = s\<lparr>rt_onComplete := rt_onComplete s @ [sc]\<rparr>
      in if rt_mounted s
         then s1\<lparr>rt_mounted := False,
                 rt_timers := clearTimeout (rt_firstTimeout s)
                                (clearTimeout (rt_advanceTimeoutRef s)
                                  (clearTimeout (rt_trickTimeoutRef s)
                                    (clearTimeout (rt_delayTimeoutRef s) (rt_timers s))))\<rparr>
         else s1)"

text \<open>
  The score the completion callback computes from the captured reaction times:
  \<^verbatim>\<open>Math.round(reduce(...) / length)\<close>, then \<^verbatim>\<open>Math.min(800, Math.round(totalScore))\<close>.
\<close>

definition ReactionFinalScore :: "int list \<Rightarrow> int" where
  "ReactionFinalScore newReactionTimes =
     (let totalScore = Math_round (dbl (of_int (foldl (\<lambda>sum rt. sum + calculateTrialScore rt) 0
                                                  newReactionTimes)
                                        / of_nat (length newReactionTimes)))
      in min 800 (Math_round (of_int totalScore)))"

text \<open>A timer's callback runs at time \<open>now\<close>, drawing \<open>u1\<close> and \<open>u2\<close> where it needs them.\<close>

fun ReactionCallbackRun ::
  "Difficulty \<Rightarrow> ReactionCallback \<Rightarrow> rat \<Rightarrow> rat \<Rightarrow> rat \<Rightarrow> ReactionState \<Rightarrow> ReactionState" where
  "ReactionCallbackRun d FirstTrial now u1 u2 s = startTrial d now u1 u2 s"
| "ReactionCallbackRun d (DelayElapsed isTrick) now u1 u2 s =
     (if isTrick
      then s\<lparr>rt_isTrickTrial := True, rt_phase := Signal, rt_signalTime := now,
             rt_trickTimeoutRef := Some (rt_nextId s),
             rt_timers := setTimeout (rt_nextId s) (now + 150) TrickElapsed (rt_timers s),
             rt_nextId := rt_nextId s + 1\<rparr>
      else s\<lparr>rt_phase := Signal, rt_signalTime := now\<rparr>)"
| "ReactionCallbackRun d TrickElapsed now u1 u2 s =
     (let secondDelay = getRandomDelay u1 800 2000
      in s\<lparr>rt_isTrickTrial := False, rt_phase := Ready,
            rt_delayTimeoutRef := Some (rt_nextId s),
            rt_timers := setTimeout (rt_nextId s) (now + of_int secondDelay) SecondDelayElapsed
                           (rt_timers s),
            rt_nextId := rt_nextId s + 1\<rparr>)"
| "ReactionCallbackRun d SecondDelayElapsed now u1 u2 s =
     s\<lparr>rt_phase := Signal, rt_signalTime := now\<rparr>"
| "ReactionCallbackRun d AdvanceTrial now u1 u2 s = startTrial d now u1 u2 s"
| "ReactionCallbackRun d (AdvanceComplete newReactionTimes) now u1 u2 s =
     ReactionOnComplete (ReactionFinalScore newReactionTimes) s"

text \<open>\<^verbatim>\<open>handleCircleClick\<close> at time \<open>now\<close> (the value of \<^verbatim>\<open>performance.now()\<close>).\<close>

definition handleCircleClick :: "Difficulty \<Rightarrow> rat \<Rightarrow> ReactionState \<Rightarrow> ReactionState" where
  "handleCircleClick d now s =
     (let totalTrials = rt_trials (ReactionSETTINGS d)
      in case rt_phase s of
           Waiting \<Rightarrow> s
         | Done \<Rightarrow> s
         | Result \<Rightarrow> s
         | TooEarly \<Rightarrow> s
         | Ready \<Rightarrow>
             s\<lparr>rt_phase := TooEarly,
               rt_advanceTimeoutRef := Some (rt_nextId s),
               rt_timers := setTimeout (rt_nextId s) (now + 1500) AdvanceTrial
                              (clearTimeout (rt_trickTimeoutRef s)
                                (clearTimeout (rt_delayTimeoutRef s) (rt_timers s))),
               rt_nextId := rt_nextId s + 1\<rparr>
         | Signal \<Rightarrow>
             (let reactionTime = Math_round (dbl (now - rt_signalTime s));
                  newReactionTimes = rt_reactionTimes s @ [reactionTime];
                  nextTrial = rt_currentTrial s + 1;
                  cb = (if nextTrial \<ge> totalTrials then AdvanceComplete newReactionTimes
                        else AdvanceTrial)
              in s\<lparr>rt_lastReactionTime := Some reactionTime, rt_phase := Result,
                    rt_reactionTimes := newReactionTimes, rt_currentTrial := nextTrial,
                    rt_advanceTimeoutRef := Some (rt_nextId s),
                    rt_timers := setTimeout (rt_nextId s) (now + 1500) cb (rt_timers s),
                    rt_nextId := rt_nextId s + 1\<rparr>))"

text \<open>
  What happens to a session: the player clicks the circle at some time, or the next
  pending timer fires when it is due. A click is possible while the component is mounted,
  not before the present and not after a pending timer was due; \<^const>\<open>None\<close> is an
  event that cannot happen.
\<close>

datatype ReactionEvent = Click rat | TimerFires rat rat

fun ReactionStep :: "Difficulty \<Rightarrow> ReactionState \<Rightarrow> ReactionEvent \<Rightarrow> ReactionState option" where
  "ReactionStep d s (Click now) =
     (if rt_mounted s \<and> rt_clock s \<le> now \<and> noneOverdue now (rt_timers s)
      then Some (handleCircleClick d now (s\<lparr>rt_clock := now\<rparr>))
      else None)"
| "ReactionStep d s (TimerFires u1 u2) =
     (case earliest (rt_timers s) of
        None \<Rightarrow> None
      | Some (ident, due, cb) \<Rightarrow>
          Some (ReactionCallbackRun d cb due u1 u2
                  (s\<lparr>rt_timers := clearTimeout (Some ident) (rt_timers s), rt_clock := due\<rparr>)))"

fun ReactionRun :: "Difficulty \<Rightarrow> ReactionState \<Rightarrow> ReactionEvent list \<Rightarrow> ReactionState option" where
  "ReactionRun d s [] = Some s"
| "ReactionRun d s (e # es) =
     (case ReactionStep d s e of None \<Rightarrow> None | Some s' \<Rightarrow> ReactionRun d s' es)"

text \<open>
  Sample sessions. A plain trial \<open>k\<close> of a hard session: \<^verbatim>\<open>startTrial\<close> draws the
  shortest delay (500 ms) and no trick, the signal appears, the player clicks 250 ms later;
  the next trial starts 1500 ms after the click, so trial \<open>k\<close> starts at \<open>1000 + 2250 k\<close>.
\<close>

definition plainTrial :: "nat \<Rightarrow> ReactionEvent list" where
  "plainTrial k = [TimerFires 0 (1 / 2), TimerFires 0 0, Click (1750 + 2250 * of_nat k)]"

text \<open>
  A hard session of thirteen plain trials, then (times in ms):
  30250 a trick trial starts; 30750 the trick signal shows; 30850 click (100 ms, trial 14
  recorded, next trial scheduled for 32350); 30900 the trick signal is hidden; 31700 the
  real signal shows; 31950 click (250 ms, trial 15 recorded, completion scheduled for
  33450); 32350 the scheduled trial starts, again a trick trial; 32850 its trick signal
  shows; 32950 click (100 ms, a sixteenth time recorded, a second completion scheduled for
  34450); 33000 the trick signal is hidden; 33050 click, too early (a restart scheduled for
  34550, which is now the timer that \<^verbatim>\<open>advanceTimeoutRef\<close> holds); 33450 the first
  completion runs and the game is unmounted; 34450 the second completion runs.
\<close>

definition doubleCompletion :: "ReactionEvent list" where
  "doubleCompletion =
     concat (map plainTrial [0..<13]) @
     [TimerFires 0 0, TimerFires 0 0, Click 30850, TimerFires 0 0, TimerFires 0 0, Click 31950,
      TimerFires 0 0, TimerFires 0 0, Click 32950, TimerFires 0 0, Click 33050,
      TimerFires 0 0, TimerFires 0 0]"

text \<open>
  A hard session of fourteen plain trials whose fifteenth and last trial is a trick trial
  (times in ms): 32500 the trial starts; 33000 the trick signal shows; 33100 click (100 ms,
  the fifteenth time recorded, the completion scheduled for 34600 with the fifteen times);
  33150 the trick signal is hidden; 33950 the real signal shows; 34200 click (250 ms, a
  sixteenth time recorded, a second completion scheduled for 35700, now the timer that
  \<^verbatim>\<open>advanceTimeoutRef\<close> holds); 34600 the first completion runs and the game is
  unmounted, which clears the second.
\<close>

definition lastTrick :: "ReactionEvent list" where
  "lastTrick =
     concat (map plainTrial [0..<14]) @
     [TimerFires 0 0, TimerFires 0 0, Click 33100, TimerFires 0 0, TimerFires 0 0, Click 34200,
      TimerFires 0 0]"

text \<open>
  The start of a hard session whose first trial is a trick trial: 1000 the trial starts;
  1500 the trick signal shows; then a click on it, at \<open>click\<close>, which schedules the next
  trial 1500 ms later.
\<close>

definition flashClicked :: "rat \<Rightarrow> ReactionEvent list" where
  "flashClicked click = [TimerFires 0 0, TimerFires 0 0, Click click]"

text \<open>
  The same session going on while that advance is pending: 1650 the trick signal is
  hidden; 2450 the real signal shows; 2700 a second click, before the advance is due.
\<close>

definition reopenedTrial :: "rat \<Rightarrow> ReactionEvent list" where
  "reopenedTrial click = flashClicked click @ [TimerFires 0 0, TimerFires 0 0, Click 2700]"

text \<open>An easy session showing the signal of its last (eighth) trial since time 20000.\<close>

definition lastSignal :: ReactionState where
  "lastSignal =
     ReactionInit\<lparr>rt_phase := Signal, rt_currentTrial := 7,
                   rt_reactionTimes := [120, 250, 250, 250, 250, 250, 250],
                   rt_signalTime := 20000, rt_timers := [], rt_clock := 20000\<rparr>"

section \<open>Spatial recall (games/PathMemory.tsx)\<close>

record PathSettings =
  pm_gridSize :: nat
  pm_startLength :: nat
  pm_showSpeed :: int
  pm_maxLength :: nat

fun PathSETTINGS :: "Difficulty \<Rightarrow> PathSettings" where
  "PathSETTINGS easy =
     \<lparr>pm_gridSize = 3, pm_startLength = 2, pm_showSpeed = 1000, pm_maxLength = 6\<rparr>"
| "PathSETTINGS normal =
     \<lparr>pm_gridSize = 4, pm_startLength = 3, pm_showSpeed = 600, pm_maxLength = 8\<rparr>"
| "PathSETTINGS hard =
     \<lparr>pm_gridSize = 5, pm_startLength = 4, pm_showSpeed = 400, pm_maxLength = 10\<rparr>"

text \<open>The phases \<^verbatim>\<open>'ready' | 'showing' | 'input' | 'success' | 'error' | 'gameover'\<close>.\<close>

datatype PathPhase = PReady | PShowing | PInput | PSuccess | PError | PGameover

text \<open>
  \<^verbatim>\<open>generateSequence\<close> draws cells until it has \<open>len\<close> distinct ones. The values
  of \<^verbatim>\<open>Math.random()\<close> are the list \<open>us\<close>, consumed from the left; the loop does
  not return (\<^const>\<open>None\<close>) when the draws run out first.
\<close>

fun generateSequence :: "nat \<Rightarrow> nat \<Rightarrow> rat list \<Rightarrow> nat list \<Rightarrow> nat list option" where
  "generateSequence len totalCells [] indices =
     (if length indices < len then None else Some indices)"
| "generateSequence len totalCells (u # us) indices =
     (if length indices < len
      then (let r = nat \<lfloor>dbl (u * of_nat totalCells)\<rfloor>
            in if r \<notin> set indices
               then generateSequence len totalCells us (indices @ [r])
               else generateSequence len totalCells us indices)
      else Some indices)"

text \<open>
  The closures handed to \<^verbatim>\<open>addTimeout\<close>: \<^verbatim>\<open>startRound\<close>'s delayed
  \<^verbatim>\<open>startShowingSequence(seq)\<close>; the highlight being switched on and off and the
  switch to the input phase; the replay after a first failure; the next round and the
  completion after a success; the completion after a second failure.
\<close>

datatype PathCallback =
  ShowSequence "nat list"
  | HighlightOn nat
  | HighlightOff
  | EnterInput
  | RetryShow "nat list"
  | NextRound nat
  | CompleteWith int
  | FailWith int

text \<open>
  The state of a mounted \<^verbatim>\<open>PathMemory\<close>. \<^verbatim>\<open>phaseRef\<close> follows \<^verbatim>\<open>phase\<close>
  after every render, so one field stands for both; the status text is display only and
  left out. Every timer goes through \<^verbatim>\<open>addTimeout\<close>, so \<^verbatim>\<open>timeoutsRef\<close> holds
  all pending timers and \<^verbatim>\<open>clearAllTimeouts\<close> empties the list.
\<close>

record PathState =
  pm_phase :: PathPhase
  pm_sequence :: "nat list"
  pm_playerInput :: "nat list"
  pm_currentLength :: nat
  pm_highlightIndex :: int
  pm_score :: int
  pm_retryUsed :: bool
  pm_timers :: "PathCallback timer list"
  pm_nextId :: nat
  pm_clock :: rat
  pm_mounted :: bool
  pm_onComplete :: "int list"

definition addTimeout :: "PathCallback \<Rightarrow> rat \<Rightarrow> PathState \<Rightarrow> PathState" where
  "addTimeout cb due s =
     s\<lparr>pm_timers := setTimeout (pm_nextId s) due cb (pm_timers s), pm_nextId := pm_nextId s + 1\<rparr>"

definition clearAllTimeouts :: "PathState \<Rightarrow> PathState" where
  "clearAllTimeouts s = s\<lparr>pm_timers := []\<rparr>"

text \<open>
  The \<^verbatim>\<open>forEach\<close> of \<^verbatim>\<open>startShowingSequence\<close> over the indices of the sequence:
  it threads the accumulated \<^verbatim>\<open>delay\<close> and returns it with the state.
\<close>

fun showTimers :: "int \<Rightarrow> rat \<Rightarrow> nat list \<Rightarrow> rat \<Rightarrow> PathState \<Rightarrow> rat \<times> PathState" where
  "showTimers showSpeed now [] delay s = (delay, s)"
| "showTimers showSpeed now (i # is) delay s =
     (let s1 = addTimeout (HighlightOn i) (now + delay) s;
          delay1 = delay + of_int showSpeed;
          s2 = addTimeout HighlightOff (now + delay1) s1;
          delay2 = delay1 + 300
      in showTimers showSpeed now is delay2 s2)"

definition startShowingSequence :: "Difficulty \<Rightarrow> nat list \<Rightarrow> rat \<Rightarrow> PathState \<Rightarrow> PathState" where
  "startShowingSequence d seq now s =
     (let s0 = s\<lparr>pm_phase := PShowing, pm_highlightIndex := - 1, pm_playerInput := []\<rparr>;
          (delay, s1) = showTimers (pm_showSpeed (PathSETTINGS d)) now [0..<length seq] 0 s0
      in addTimeout EnterInput (now + delay) s1)"

definition startRound :: "Difficulty \<Rightarrow> nat \<Rightarrow> rat \<Rightarrow> rat list \<Rightarrow> PathState \<Rightarrow> PathState option" where
  "startRound d len now us s =
     (let totalCells = pm_gridSize (PathSETTINGS d) * pm_gridSize (PathSETTINGS d)
      in case generateSequence len totalCells us [] of
           None \<Rightarrow> None
         | Some seq \<Rightarrow>
             Some (addTimeout (ShowSequence seq) (now + 1000)
                    ((clearAllTimeouts s)\<lparr>pm_sequence := seq, pm_playerInput := [],
                        pm_retryUsed := False, pm_phase := PReady, pm_highlightIndex := - 1\<rparr>)))"

text \<open>
  The parent's \<^verbatim>\<open>handleComplete\<close> records the score and unmounts the game, whose
  cleanup effect clears every pending timer.
\<close>

definition PathOnComplete :: "int \<Rightarrow> PathState \<Rightarrow> PathState" where
  "PathOnComplete sc s =
     (let s1 = s\<lparr>pm_onComplete := pm_onComplete s @ [sc]\<rparr>
      in if pm_mounted s then s1\<lparr>pm_mounted := False, pm_timers := []\<rparr> else s1)"

text \<open>The component as mounted: the mount effect calls \<^verbatim>\<open>startRound(startLength)\<close>.\<close>

definition PathBlank :: "Difficulty \<Rightarrow> PathState" where
  "PathBlank d =
     \<lparr>pm_phase = PReady, pm_sequence = [], pm_playerInput = [],
      pm_currentLength = pm_startLength (PathSETTINGS d), pm_highlightIndex = - 1,
      pm_score = 0, pm_retryUsed = False, pm_timers = [], pm_nextId = 0, pm_clock = 0,
      pm_mounted = True, pm_onComplete = []\<rparr>"

definition PathInit :: "Difficulty \<Rightarrow> rat list \<Rightarrow> PathState option" where
  "PathInit d us = startRound d (pm_startLength (PathSETTINGS d)) 0 us (PathBlank d)"

fun PathCallbackRun ::
  "Difficulty \<Rightarrow> PathCallback \<Rightarrow> rat \<Rightarrow> rat list \<Rightarrow> PathState \<Rightarrow> PathState option" where
  "PathCallbackRun d (ShowSequence seq) now us s = Some (startShowingSequence d seq now s)"
| "PathCallbackRun d (HighlightOn i) now us s = Some (s\<lparr>pm_highlightIndex := int i\<rparr>)"
| "PathCallbackRun d HighlightOff now us s = Some (s\<lparr>pm_highlightIndex := - 1\<rparr>)"
| "PathCallbackRun d EnterInput now us s =
     Some (s\<lparr>pm_highlightIndex := - 1, pm_phase := PInput\<rparr>)"
| "PathCallbackRun d (RetryShow seq) now us s =
     Some (startShowingSequence d seq now (clearAllTimeouts s))"
| "PathCallbackRun d (NextRound len) now us s = startRound d len now us s"
| "PathCallbackRun d (CompleteWith newScore) now us s =
     Some (PathOnComplete newScore (s\<lparr>pm_phase := PGameover\<rparr>))"
| "PathCallbackRun d (FailWith sc) now us s = Some (PathOnComplete sc s)"

text \<open>
  The two places of \<^verbatim>\<open>handleCellClick\<close> that treat a wrong attempt, which read the
  same: a retry if none was used in this round, the end of the game otherwise.
\<close>

definition wrongAttempt :: "rat \<Rightarrow> PathState \<Rightarrow> PathState" where
  "wrongAttempt now s =
     (if \<not> pm_retryUsed s
      then addTimeout (RetryShow (pm_sequence s)) (now + 1200)
             (s\<lparr>pm_retryUsed := True, pm_phase := PError\<rparr>)
      else addTimeout (FailWith (pm_score s)) (now + 800) (s\<lparr>pm_phase := PGameover\<rparr>))"

text \<open>\<^verbatim>\<open>newInput.every((val, i) => val === sequence[i])\<close>.\<close>

definition everyMatches :: "nat list \<Rightarrow> nat list \<Rightarrow> bool" where
  "everyMatches newInput seq =
     list_all (\<lambda>(val, i). at_index seq i = Some val) (zip newInput [0..<length newInput])"

text \<open>\<^verbatim>\<open>handleCellClick\<close> of the spatial recall game.\<close>

definition Path_handleCellClick :: "Difficulty \<Rightarrow> nat \<Rightarrow> rat \<Rightarrow> PathState \<Rightarrow> PathState" where
  "Path_handleCellClick d cellIndex now s =
     (if pm_phase s \<noteq> PInput then s
      else
        (let newInput = pm_playerInput s @ [cellIndex];
             s0 = s\<lparr>pm_playerInput := newInput\<rparr>;
             stepIndex = length newInput - 1;
             isCorrectSoFar = (at_index newInput stepIndex = at_index (pm_sequence s) stepIndex)
         in if length newInput = length (pm_sequence s)
            then (let allCorrect = everyMatches newInput (pm_sequence s)
                  in if allCorrect
                     then (let earned = int (length (pm_sequence s)) * 50;
                               newScore = pm_score s + earned;
                               s1 = s0\<lparr>pm_score := newScore, pm_phase := PSuccess\<rparr>;
                               nextLength = pm_currentLength s + 1
                           in if nextLength > pm_maxLength (PathSETTINGS d)
                              then addTimeout (CompleteWith newScore) (now + 1200) s1
                              else addTimeout (NextRound nextLength) (now + 1200)
                                     (s1\<lparr>pm_currentLength := nextLength\<rparr>))
                     else wrongAttempt now s0)
            else if \<not> isCorrectSoFar then wrongAttempt now s0
            else s0))"

datatype PathEvent = CellClick nat rat | PathTimerFires "rat list"

fun PathStep :: "Difficulty \<Rightarrow> PathState \<Rightarrow> PathEvent \<Rightarrow> PathState option" where
  "PathStep d s (CellClick cellIndex now) =
     (if pm_mounted s \<and> pm_clock s \<le> now \<and> noneOverdue now (pm_timers s)
      then Some (Path_handleCellClick d cellIndex now (s\<lparr>pm_clock := now\<rparr>))
      else None)"
| "PathStep d s (PathTimerFires us) =
     (case earliest (pm_timers s) of
        None \<Rightarrow> None
      | Some (ident, due, cb) \<Rightarrow>
          PathCallbackRun d cb due us
            (s\<lparr>pm_timers := clearTimeout (Some ident) (pm_timers s), pm_clock := due\<rparr>))"

fun PathRun :: "Difficulty \<Rightarrow> PathState option \<Rightarrow> PathEvent list \<Rightarrow> PathState option" where
  "PathRun d None es = None"
| "PathRun d (Some s) [] = Some s"
| "PathRun d (Some s) (e # es) = PathRun d (PathStep d s e) es"

text \<open>
  An easy session (times in ms). The first sequence is cells 0, 1; it is shown and the
  input phase starts at 3600. 4000: a click on cell 5, wrong, uses the retry; the sequence is
  shown again until 7800; 8000 and 8500: cells 0 and 1, correct. 9700: the second round
  starts with the sequence 0, 1, 2, shown until 14600. 15000: a click on cell 5, wrong.
\<close>

definition retryInFirstRound :: "PathEvent list" where
  "retryInFirstRound = replicate 6 (PathTimerFires []) @ [CellClick 5 4000]"

definition retryInBothRounds :: "PathEvent list" where
  "retryInBothRounds =
     retryInFirstRound @ replicate 6 (PathTimerFires []) @
     [CellClick 0 8000, CellClick 1 8500, PathTimerFires [0, 1 / 8, 1 / 4]] @
     replicate 8 (PathTimerFires []) @ [CellClick 5 15000]"

text \<open>
  The states of that session when the input phase starts for the first time (3600) and
  when it starts again after the retry (7800).
\<close>

definition firstInput :: PathState where
  "firstInput =
     \<lparr>pm_phase = PInput, pm_sequence = [0, 1], pm_playerInput = [],
      pm_currentLength = 2, pm_highlightIndex = - 1, pm_score = 0,
      pm_retryUsed = False, pm_timers = [], pm_nextId = 6, pm_clock = 3600,
      pm_mounted = True, pm_onComplete = []\<rparr>"

definition afterFirstRetry :: PathState where
  "afterFirstRetry =
     \<lparr>pm_phase = PInput, pm_sequence = [0, 1], pm_playerInput = [],
      pm_currentLength = 2, pm_highlightIndex = - 1, pm_score = 0,
      pm_retryUsed = True, pm_timers = [], pm_nextId = 12, pm_clock = 7800,
      pm_mounted = True, pm_onComplete = []\<rparr>"

section \<open>Arithmetic (games/ArithmeticChallenge.tsx)\<close>

text \<open>The feedback \<^verbatim>\<open>'correct' | 'wrong'\<close> shown after an answer; \<^verbatim>\<open>null\<close> is \<^const>\<open>None\<close>.\<close>

datatype Feedback = FbCorrect | FbWrong

record ArithmeticSettings =
  ar_timeLimit :: int
  ar_pointsPerCorrect :: int
  ar_comboBonus :: int
  ar_maxComboExtra :: int

fun ArithmeticSETTINGS :: "Difficulty \<Rightarrow> ArithmeticSettings" where
  "ArithmeticSETTINGS easy =
     \<lparr>ar_timeLimit = 60, ar_pointsPerCorrect = 10, ar_comboBonus = 2, ar_maxComboExtra = 10\<rparr>"
| "ArithmeticSETTINGS normal =
     \<lparr>ar_timeLimit = 60, ar_pointsPerCorrect = 15, ar_comboBonus = 3, ar_maxComboExtra = 15\<rparr>"
| "ArithmeticSETTINGS hard =
     \<lparr>ar_timeLimit = 90, ar_pointsPerCorrect = 20, ar_comboBonus = 5, ar_maxComboExtra = 25\<rparr>"

text \<open>
  A generated problem: its answer and the four options (the text shown is display only).
  \<^verbatim>\<open>generateProblem\<close> is random; the problems it returns are parameters.
\<close>

record Problem =
  pb_answer :: int
  pb_options :: "int list"

text \<open>
  The feedback timeout of \<^verbatim>\<open>handleOptionClick\<close>:
  \<^verbatim>\<open>if (gameActiveRef.current) nextProblem()\<close>.
\<close>

datatype ArithmeticCallback = ArNextProblem

record ArithmeticState =
  ar_timeLeft :: int
  ar_currentProblem :: Problem
  ar_score :: int
  ar_streak :: int
  ar_totalCorrect :: int
  ar_totalAttempted :: int
  ar_feedback :: "Feedback option"
  ar_selectedOption :: "int option"
  ar_interval :: bool
  ar_feedbackTimerRef :: "nat option"
  ar_gameActive :: bool
  ar_scoreRef :: int
  ar_problemIndex :: int
  ar_isProcessing :: bool
  ar_timers :: "ArithmeticCallback timer list"
  ar_nextId :: nat
  ar_mounted :: bool
  ar_onComplete :: "int list"

definition ArithmeticInit :: "Difficulty \<Rightarrow> Problem \<Rightarrow> ArithmeticState" where
  "ArithmeticInit d problem =
     \<lparr>ar_timeLeft = ar_timeLimit (ArithmeticSETTINGS d), ar_currentProblem = problem,
      ar_score = 0, ar_streak = 0, ar_totalCorrect = 0, ar_totalAttempted = 0,
      ar_feedback = None, ar_selectedOption = None, ar_interval = True,
      ar_feedbackTimerRef = None, ar_gameActive = True, ar_scoreRef = 0, ar_problemIndex = 0,
      ar_isProcessing = False, ar_timers = [], ar_nextId = 0, ar_mounted = True,
      ar_onComplete = []\<rparr>"

definition nextProblem :: "Problem \<Rightarrow> ArithmeticState \<Rightarrow> ArithmeticState" where
  "nextProblem problem s =
     s\<lparr>ar_problemIndex := ar_problemIndex s + 1, ar_currentProblem := problem,
       ar_feedback := None, ar_selectedOption := None, ar_isProcessing := False\<rparr>"

text \<open>\<^verbatim>\<open>handleOptionClick\<close> of the arithmetic game, at time \<open>now\<close>.\<close>

definition Arithmetic_handleOptionClick :: "Difficulty \<Rightarrow> int \<Rightarrow> rat \<Rightarrow> ArithmeticState \<Rightarrow> ArithmeticState" where
  "Arithmetic_handleOptionClick d v now s =
     (let settings = ArithmeticSETTINGS d
      in if ar_isProcessing s then s
         else if \<not> ar_gameActive s then s
         else
           (let s0 = s\<lparr>ar_isProcessing := True, ar_selectedOption := Some v,
                        ar_totalAttempted := ar_totalAttempted s + 1\<rparr>;
                isCorrect = (v = pb_answer (ar_currentProblem s))
            in if isCorrect
               then (let newStreak = ar_streak s + 1;
                         comboExtra = min ((newStreak - 1) * ar_comboBonus settings)
                                          (ar_maxComboExtra settings);
                         points = ar_pointsPerCorrect settings + comboExtra;
                         newScore = ar_score s + points
                     in s0\<lparr>ar_streak := newStreak, ar_totalCorrect := ar_totalCorrect s + 1,
                            ar_score := newScore, ar_scoreRef := newScore,
                            ar_feedback := Some FbCorrect,
                            ar_feedbackTimerRef := Some (ar_nextId s),
                            ar_timers := setTimeout (ar_nextId s) (now + 400) ArNextProblem
                                           (ar_timers s),
                            ar_nextId := ar_nextId s + 1\<rparr>)
               else s0\<lparr>ar_streak := 0, ar_feedback := Some FbWrong,
                        ar_feedbackTimerRef := Some (ar_nextId s),
                        ar_timers := setTimeout (ar_nextId s) (now + 800) ArNextProblem
                                       (ar_timers s),
                        ar_nextId := ar_nextId s + 1\<rparr>))"

text \<open>The feedback timeout fires; \<open>problem\<close> is what \<^verbatim>\<open>generateProblem\<close> returns.\<close>

definition ArithmeticFeedbackDone :: "nat \<Rightarrow> Problem \<Rightarrow> ArithmeticState \<Rightarrow> ArithmeticState" where
  "ArithmeticFeedbackDone ident problem s =
     (let s0 = s\<lparr>ar_timers := clearTimeout (Some ident) (ar_timers s)\<rparr>
      in if ar_gameActive s then nextProblem problem s0 else s0)"

text \<open>
  A tick of the one-second interval, with the effect that ends the game when the time
  left reaches 0: it clears the feedback timer and reports \<^verbatim>\<open>scoreRef.current\<close>; the
  parent then unmounts the game.
\<close>

definition ArithmeticTick :: "ArithmeticState \<Rightarrow> ArithmeticState" where
  "ArithmeticTick s =
     (if \<not> ar_interval s then s
      else if ar_timeLeft s \<le> 1
      then s\<lparr>ar_timeLeft := 0, ar_interval := False, ar_gameActive := False,
             ar_timers := clearTimeout (ar_feedbackTimerRef s) (ar_timers s),
             ar_mounted := False,
             ar_onComplete := ar_onComplete s @ [ar_scoreRef s]\<rparr>
      else s\<lparr>ar_timeLeft := ar_timeLeft s - 1\<rparr>)"

section \<open>Pattern reasoning (games/PatternReason.tsx)\<close>

record PatternSettings =
  pr_questionCount :: nat
  pr_pointsPerCorrect :: int

fun PatternSETTINGS :: "Difficulty \<Rightarrow> PatternSettings" where
  "PatternSETTINGS easy = \<lparr>pr_questionCount = 10, pr_pointsPerCorrect = 50\<rparr>"
| "PatternSETTINGS normal = \<lparr>pr_questionCount = 12, pr_pointsPerCorrect = 67\<rparr>"
| "PatternSETTINGS hard = \<lparr>pr_questionCount = 15, pr_pointsPerCorrect = 67\<rparr>"

definition SPEED_BONUS :: int where
  "SPEED_BONUS = 10"

definition SPEED_THRESHOLD_MS :: rat where
  "SPEED_THRESHOLD_MS = 8000"

text \<open>
  A question is used through its \<^verbatim>\<open>correctIndex\<close> only (the symbols are display
  only). The selected questions, a shuffled slice of the bank, are a parameter.
\<close>

record PatternQuestion =
  pq_correctIndex :: nat

text \<open>The feedback timeout, with the \<^verbatim>\<open>currentQuestion\<close> its closure captured.\<close>

datatype PatternCallback = PrAdvance nat

record PatternState =
  pr_questions :: "PatternQuestion list"
  pr_currentQuestion :: nat
  pr_score :: int
  pr_feedback :: "Feedback option"
  pr_selectedOption :: "nat option"
  pr_questionStartTime :: rat
  pr_feedbackTimerRef :: "nat option"
  pr_isProcessing :: bool
  pr_scoreRef :: int
  pr_timers :: "PatternCallback timer list"
  pr_nextId :: nat
  pr_mounted :: bool
  pr_onComplete :: "int list"

definition PatternInit :: "PatternQuestion list \<Rightarrow> rat \<Rightarrow> PatternState" where
  "PatternInit questions now =
     \<lparr>pr_questions = questions, pr_currentQuestion = 0, pr_score = 0, pr_feedback = None,
      pr_selectedOption = None, pr_questionStartTime = now, pr_feedbackTimerRef = None,
      pr_isProcessing = False, pr_scoreRef = 0, pr_timers = [], pr_nextId = 0,
      pr_mounted = True, pr_onComplete = []\<rparr>"

text \<open>
  \<^verbatim>\<open>handleOptionClick\<close> of the pattern game. Without a current question the
  component renders nothing, so there is no option to click.
\<close>

definition Pattern_handleOptionClick :: "Difficulty \<Rightarrow> nat \<Rightarrow> rat \<Rightarrow> PatternState \<Rightarrow> PatternState" where
  "Pattern_handleOptionClick d optionIndex now s =
     (if pr_isProcessing s then s
      else if pr_feedback s \<noteq> None then s
      else case at_index (pr_questions s) (pr_currentQuestion s) of
             None \<Rightarrow> s
           | Some question \<Rightarrow>
               (let isCorrect = (optionIndex = pq_correctIndex question);
                    answerTime = now - pr_questionStartTime s;
                    s0 = s\<lparr>pr_isProcessing := True, pr_selectedOption := Some optionIndex\<rparr>;
                    s1 = (if isCorrect
                          then (let points = pr_pointsPerCorrect (PatternSETTINGS d)
                                      + (if answerTime \<le> SPEED_THRESHOLD_MS then SPEED_BONUS else 0);
                                    newScore = pr_score s + points
                                in s0\<lparr>pr_score := newScore, pr_scoreRef := newScore,
                                       pr_feedback := Some FbCorrect\<rparr>)
                          else s0\<lparr>pr_feedback := Some FbWrong\<rparr>)
                in s1\<lparr>pr_feedbackTimerRef := Some (pr_nextId s),
                       pr_timers := setTimeout (pr_nextId s) (now + 800)
                                      (PrAdvance (pr_currentQuestion s)) (pr_timers s),
                       pr_nextId := pr_nextId s + 1\<rparr>))"

text \<open>
  The feedback timeout fires at time \<open>now\<close>: the game is reported complete after the
  last question (and the parent unmounts it, clearing the timer the ref holds); otherwise
  the next question is shown and its start time taken.
\<close>

definition PatternFeedbackDone :: "nat \<Rightarrow> nat \<Rightarrow> rat \<Rightarrow> PatternState \<Rightarrow> PatternState" where
  "PatternFeedbackDone ident currentQuestion now s =
     (let s0 = s\<lparr>pr_timers := clearTimeout (Some ident) (pr_timers s)\<rparr>;
          nextQuestion = currentQuestion + 1
      in if nextQuestion \<ge> length (pr_questions s)
         then s0\<lparr>pr_onComplete := pr_onComplete s @ [pr_scoreRef s], pr_mounted := False,
                 pr_timers := clearTimeout (pr_feedbackTimerRef s) (pr_timers s0)\<rparr>
         else s0\<lparr>pr_currentQuestion := nextQuestion, pr_feedback := None,
                 pr_selectedOption := None, pr_isProcessing := False,
                 pr_questionStartTime := now\<rparr>)"

section \<open>Interference test (games/StroopTest.tsx)\<close>

record StroopSettings =
  sp_totalRounds :: int
  sp_colorCount :: nat

fun StroopSETTINGS :: "Difficulty \<Rightarrow> StroopSettings" where
  "StroopSETTINGS easy = \<lparr>sp_totalRounds = 15, sp_colorCount = 3\<rparr>"
| "StroopSETTINGS normal = \<lparr>sp_totalRounds = 20, sp_colorCount = 4\<rparr>"
| "StroopSETTINGS hard = \<lparr>sp_totalRounds = 25, sp_colorCount = 4\<rparr>"

text \<open>The four entries of \<^verbatim>\<open>COLORS\<close>, by name.\<close>

datatype Color = Red | Blue | Green | Yellow

text \<open>
  A generated trial: the word, the ink colour, the correct answer (the name of the ink
  colour) and the options. \<^verbatim>\<open>generateTrial\<close> is random; the trials are parameters.
\<close>

record Trial =
  tl_word :: Color
  tl_inkColor :: Color
  tl_correctAnswer :: Color
  tl_options :: "Color list"

text \<open>The two feedback timeouts: report the game complete, or load the next trial.\<close>

datatype StroopCallback = SpComplete | SpLoadTrial

record StroopState =
  sp_round :: int
  sp_score :: int
  sp_trial :: "Trial option"
  sp_streak :: int
  sp_feedback :: "Feedback option"
  sp_feedbackTimerRef :: "nat option"
  sp_isProcessing :: bool
  sp_trialStartTime :: rat
  sp_scoreRef :: int
  sp_roundRef :: int
  sp_timers :: "StroopCallback timer list"
  sp_nextId :: nat
  sp_mounted :: bool
  sp_onComplete :: "int list"

definition loadTrial :: "Trial \<Rightarrow> rat \<Rightarrow> StroopState \<Rightarrow> StroopState" where
  "loadTrial trial now s =
     s\<lparr>sp_trial := Some trial, sp_feedback := None, sp_isProcessing := False,
       sp_trialStartTime := now\<rparr>"

text \<open>The mounted component: the mount effect loads the first trial.\<close>

definition StroopInit :: "Trial \<Rightarrow> rat \<Rightarrow> StroopState" where
  "StroopInit trial now =
     loadTrial trial now
       \<lparr>sp_round = 1, sp_score = 0, sp_trial = None, sp_streak = 0, sp_feedback = None,
        sp_feedbackTimerRef = None, sp_isProcessing = False, sp_trialStartTime = now,
        sp_scoreRef = 0, sp_roundRef = 1, sp_timers = [], sp_nextId = 0, sp_mounted = True,
        sp_onComplete = []\<rparr>"

text \<open>
  \<^verbatim>\<open>handleOptionClick\<close> of the interference test. The answer is compared with the
  correct answer of the loaded trial. The settings that only steer the random generation
  of trials (\<^verbatim>\<open>incongruentRate\<close>, \<^verbatim>\<open>shufflePositions\<close>) are left out.
\<close>

definition Stroop_handleOptionClick :: "Difficulty \<Rightarrow> Color \<Rightarrow> rat \<Rightarrow> StroopState \<Rightarrow> StroopState" where
  "Stroop_handleOptionClick d colorName now s =
     (if sp_isProcessing s then s
      else
        (let answerTime = now - sp_trialStartTime s;
             isCorrect = (Some colorName = map_option tl_correctAnswer (sp_trial s));
             s0 = s\<lparr>sp_isProcessing := True\<rparr>;
             s1 = (if isCorrect
                   then (let points0 = 10 + (if answerTime \<le> 2000 then 5 else 0);
                             newStreak = sp_streak s + 1;
                             points = points0 + (if newStreak = 10 then 50
                                                 else if newStreak = 5 then 20 else 0);
                             newScore = sp_score s + points
                         in s0\<lparr>sp_streak := newStreak, sp_score := newScore,
                                sp_scoreRef := newScore, sp_feedback := Some FbCorrect\<rparr>)
                   else (let newScore = max 0 (sp_score s - 5)
                         in s0\<lparr>sp_streak := 0, sp_score := newScore, sp_scoreRef := newScore,
                                sp_feedback := Some FbWrong\<rparr>));
             nextRound = sp_roundRef s + 1
         in if nextRound > sp_totalRounds (StroopSETTINGS d)
            then s1\<lparr>sp_feedbackTimerRef := Some (sp_nextId s),
                    sp_timers := setTimeout (sp_nextId s) (now + 400) SpComplete (sp_timers s),
                    sp_nextId := sp_nextId s + 1\<rparr>
            else s1\<lparr>sp_round := nextRound, sp_roundRef := nextRound,
                    sp_feedbackTimerRef := Some (sp_nextId s),
                    sp_timers := setTimeout (sp_nextId s) (now + 400) SpLoadTrial (sp_timers s),
                    sp_nextId := sp_nextId s + 1\<rparr>))"

fun StroopFeedbackDone :: "nat \<Rightarrow> StroopCallback \<Rightarrow> Trial \<Rightarrow> rat \<Rightarrow> StroopState \<Rightarrow> StroopState" where
  "StroopFeedbackDone ident SpComplete trial now s =
     s\<lparr>sp_onComplete := sp_onComplete s @ [sp_scoreRef s], sp_mounted := False,
       sp_timers := clearTimeout (sp_feedbackTimerRef s) (clearTimeout (Some ident) (sp_timers s))\<rparr>"
| "StroopFeedbackDone ident SpLoadTrial trial now s =
     loadTrial trial now (s\<lparr>sp_timers := clearTimeout (Some ident) (sp_timers s)\<rparr>)"

section \<open>Categorization (games/WordSort.tsx)\<close>

record WordSortSettings =
  ws_categoryCount :: nat
  ws_wordsPerCategory :: nat
  ws_timeLimit :: "int option"

fun WordSortSETTINGS :: "Difficulty \<Rightarrow> WordSortSettings" where
  "WordSortSETTINGS easy =
     \<lparr>ws_categoryCount = 2, ws_wordsPerCategory = 6, ws_timeLimit = None\<rparr>"
| "WordSortSETTINGS normal =
     \<lparr>ws_categoryCount = 3, ws_wordsPerCategory = 6, ws_timeLimit = Some 90\<rparr>"
| "WordSortSETTINGS hard =
     \<lparr>ws_categoryCount = 4, ws_wordsPerCategory = 6, ws_timeLimit = Some 60\<rparr>"

text \<open>
  The six categories of \<^verbatim>\<open>WORD_BANK\<close>, in its order; a word is its category and its
  position in the category's list. \<^verbatim>\<open>initGame\<close> is random: the words of a game are
  a parameter.
\<close>

datatype Category = Diet | Exercise | Cognition | Social | Emotion | Sleep

record WordItem =
  wi_text :: nat
  wi_category :: Category

record WordFeedback =
  wf_type :: Feedback
  wf_correctCategory :: "Category option"
  wf_selectedCategory :: "Category option"

text \<open>
  The feedback timeout, with the \<^verbatim>\<open>currentIndex\<close> that the captured
  \<^verbatim>\<open>advanceToNext\<close> closes over.
\<close>

datatype WordSortCallback = WsAdvance nat

record WordSortState =
  ws_words :: "WordItem list"
  ws_currentIndex :: nat
  ws_score :: int
  ws_streak :: int
  ws_correctCount :: int
  ws_feedback :: "WordFeedback option"
  ws_timeLeft :: "int option"
  ws_gameOver :: bool
  ws_isProcessing :: bool
  ws_gameOverRef :: bool
  ws_completedRef :: bool
  ws_timers :: "WordSortCallback timer list"
  ws_nextId :: nat
  ws_mounted :: bool
  ws_onComplete :: "int list"

definition WordSortInit :: "Difficulty \<Rightarrow> WordItem list \<Rightarrow> WordSortState" where
  "WordSortInit d ws =
     \<lparr>ws_words = ws, ws_currentIndex = 0, ws_score = 0, ws_streak = 0, ws_correctCount = 0,
      ws_feedback = None, ws_timeLeft = ws_timeLimit (WordSortSETTINGS d), ws_gameOver = False,
      ws_isProcessing = False, ws_gameOverRef = False, ws_completedRef = False,
      ws_timers = [], ws_nextId = 0, ws_mounted = True, ws_onComplete = []\<rparr>"

text \<open>
  The effect that reports the end of the game, run after a render that may have set
  \<^verbatim>\<open>gameOver\<close>: \<^verbatim>\<open>onComplete(Math.max(0, score))\<close>, once (the parent then
  unmounts the game; its feedback timeouts are not tracked and stay pending).
\<close>

definition WordSortEffects :: "WordSortState \<Rightarrow> WordSortState" where
  "WordSortEffects s =
     (if ws_gameOver s \<and> \<not> ws_completedRef s
      then s\<lparr>ws_completedRef := True, ws_mounted := False,
             ws_onComplete := ws_onComplete s @ [max 0 (ws_score s)]\<rparr>
      else s)"

text \<open>\<^verbatim>\<open>handleCategoryClick\<close>, at time \<open>now\<close>.\<close>

definition WordSort_handleCategoryClick :: "Category \<Rightarrow> rat \<Rightarrow> WordSortState \<Rightarrow> WordSortState" where
  "WordSort_handleCategoryClick selectedCategory now s =
     (if ws_isProcessing s \<or> ws_gameOverRef s \<or> ws_gameOver s then s
      else case at_index (ws_words s) (ws_currentIndex s) of
             None \<Rightarrow> s
           | Some currentWord \<Rightarrow>
               (let s0 = s\<lparr>ws_isProcessing := True\<rparr>;
                    isCorrect = (selectedCategory = wi_category currentWord)
                in if isCorrect
                   then (let newStreak = ws_streak s + 1;
                             points = 10 + (if newStreak \<ge> 3 \<and> newStreak mod 3 = 0 then 15 else 0)
                         in s0\<lparr>ws_score := ws_score s + points, ws_streak := newStreak,
                                ws_correctCount := ws_correctCount s + 1,
                                ws_feedback := Some \<lparr>wf_type = FbCorrect, wf_correctCategory = None,
                                                     wf_selectedCategory = Some selectedCategory\<rparr>,
                                ws_timers := setTimeout (ws_nextId s) (now + 400)
                                               (WsAdvance (ws_currentIndex s)) (ws_timers s),
                                ws_nextId := ws_nextId s + 1\<rparr>)
                   else s0\<lparr>ws_score := ws_score s - 5, ws_streak := 0,
                            ws_feedback := Some \<lparr>wf_type = FbWrong,
                                                 wf_correctCategory = Some (wi_category currentWord),
                                                 wf_selectedCategory = Some selectedCategory\<rparr>,
                            ws_timers := setTimeout (ws_nextId s) (now + 600)
                                           (WsAdvance (ws_currentIndex s)) (ws_timers s),
                            ws_nextId := ws_nextId s + 1\<rparr>))"

text \<open>
  The feedback timeout fires: \<^verbatim>\<open>setFeedback(null)\<close>, \<^verbatim>\<open>advanceToNext()\<close>, the
  guard released, then the effects of the render.
\<close>

definition WordSortFeedbackDone :: "nat \<Rightarrow> nat \<Rightarrow> WordSortState \<Rightarrow> WordSortState" where
  "WordSortFeedbackDone ident currentIndex s =
     (let s0 = s\<lparr>ws_timers := clearTimeout (Some ident) (ws_timers s), ws_feedback := None\<rparr>;
          nextIndex = currentIndex + 1;
          s1 = (if nextIndex \<ge> length (ws_words s)
                then s0\<lparr>ws_gameOverRef := True, ws_gameOver := True\<rparr>
                else s0\<lparr>ws_currentIndex := nextIndex\<rparr>)
      in WordSortEffects (s1\<lparr>ws_isProcessing := False\<rparr>))"

text \<open>
  A tick of the one-second interval of the timed difficulties, then the effects: the game
  is over when the time left is 0.
\<close>

definition WordSortTick :: "WordSortState \<Rightarrow> WordSortState" where
  "WordSortTick s =
     (case ws_timeLeft s of
        None \<Rightarrow> s
      | Some prev \<Rightarrow>
          if ws_gameOverRef s \<or> prev \<le> 0 then s
          else (let timeLeft = (if prev \<le> 1 then 0 else prev - 1);
                    s0 = s\<lparr>ws_timeLeft := Some timeLeft\<rparr>
                in WordSortEffects
                     (if timeLeft \<le> 0 then s0\<lparr>ws_gameOverRef := True, ws_gameOver := True\<rparr>
                      else s0)))"

section \<open>Memory match (games/MemoryMatch.tsx)\<close>

record MemorySettings =
  mm_pairs :: int
  mm_timeLimit :: int

fun MemorySETTINGS :: "Difficulty \<Rightarrow> MemorySettings" where
  "MemorySETTINGS easy = \<lparr>mm_pairs = 3, mm_timeLimit = 0\<rparr>"
| "MemorySETTINGS normal = \<lparr>mm_pairs = 6, mm_timeLimit = 0\<rparr>"
| "MemorySETTINGS hard = \<lparr>mm_pairs = 8, mm_timeLimit = 60\<rparr>"

text \<open>A card; its icon is the position of the icon in \<^verbatim>\<open>CARD_ICONS\<close>.\<close>

record Card =
  cd_id :: nat
  cd_icon :: nat
  cd_flipped :: bool
  cd_matched :: bool

text \<open>The two timeouts that resolve a pair of flipped cards.\<close>

datatype MemoryCallback = MatchFound nat nat | NoMatch nat nat

record MemoryState =
  mm_cards :: "Card list"
  mm_flippedIndices :: "nat list"
  mm_errors :: int
  mm_matches :: int
  mm_timeLeft :: int
  mm_gameStarted :: bool
  mm_isChecking :: bool
  mm_gameOver :: bool
  mm_startTime :: rat
  mm_timers :: "MemoryCallback timer list"
  mm_nextId :: nat
  mm_mounted :: bool
  mm_onComplete :: "int list"

definition MemoryInit :: "Difficulty \<Rightarrow> Card list \<Rightarrow> MemoryState" where
  "MemoryInit d cards =
     \<lparr>mm_cards = cards, mm_flippedIndices = [], mm_errors = 0, mm_matches = 0,
      mm_timeLeft = mm_timeLimit (MemorySETTINGS d), mm_gameStarted = False,
      mm_isChecking = False, mm_gameOver = False, mm_startTime = 0, mm_timers = [],
      mm_nextId = 0, mm_mounted = True, mm_onComplete = []\<rparr>"

text \<open>The component's own \<^verbatim>\<open>calculateScore\<close>.\<close>

definition Memory_calculateScore :: "Difficulty \<Rightarrow> int \<Rightarrow> int \<Rightarrow> int \<Rightarrow> int" where
  "Memory_calculateScore d matchCount errorCount timeUsed =
     (let score0 = matchCount * 100 - errorCount * 10;
          score1 = (if mm_timeLimit (MemorySETTINGS d) > 0
                    then score0 + max 0 ((mm_timeLimit (MemorySETTINGS d) - timeUsed) * 2)
                    else score0)
      in max 0 score1)"

text \<open>
  \<^verbatim>\<open>handleCardClick\<close>; the cards rendered are those of the list, so an index outside
  it cannot be clicked.
\<close>

definition handleCardClick :: "nat \<Rightarrow> rat \<Rightarrow> MemoryState \<Rightarrow> MemoryState" where
  "handleCardClick index now s =
     (if mm_gameOver s then s
      else if mm_isChecking s then s
      else case at_index (mm_cards s) index of
             None \<Rightarrow> s
           | Some crd \<Rightarrow>
               if cd_flipped crd \<or> cd_matched crd then s
               else if length (mm_flippedIndices s) \<ge> 2 then s
               else
                 (let s0 = (if \<not> mm_gameStarted s
                            then s\<lparr>mm_gameStarted := True, mm_startTime := now\<rparr> else s);
                      newCards = (mm_cards s)[index := crd\<lparr>cd_flipped := True\<rparr>];
                      newFlipped = mm_flippedIndices s @ [index];
                      s1 = s0\<lparr>mm_cards := newCards, mm_flippedIndices := newFlipped\<rparr>
                  in if length newFlipped = 2
                     then (let first = newFlipped ! 0; second = newFlipped ! 1
                           in if map_option cd_icon (at_index newCards first)
                                   = map_option cd_icon (at_index newCards second)
                              then s1\<lparr>mm_isChecking := True,
                                      mm_timers := setTimeout (mm_nextId s) (now + 400)
                                                     (MatchFound first second) (mm_timers s),
                                      mm_nextId := mm_nextId s + 1\<rparr>
                              else s1\<lparr>mm_isChecking := True, mm_errors := mm_errors s + 1,
                                      mm_timers := setTimeout (mm_nextId s) (now + 800)
                                                     (NoMatch first second) (mm_timers s),
                                      mm_nextId := mm_nextId s + 1\<rparr>)
                     else s1))"

text \<open>
  The effect that ends the game when all pairs are matched, at time \<open>now\<close>; the game is
  then unmounted (its timeouts are not tracked).
\<close>

definition MemoryEffects :: "Difficulty \<Rightarrow> rat \<Rightarrow> MemoryState \<Rightarrow> MemoryState" where
  "MemoryEffects d now s =
     (if mm_matches s = mm_pairs (MemorySETTINGS d) \<and> mm_matches s > 0 \<and> \<not> mm_gameOver s
      then (let timeUsed =
                  (if mm_timeLimit (MemorySETTINGS d) > 0
                   then mm_timeLimit (MemorySETTINGS d) - mm_timeLeft s
                   else if mm_startTime s > 0 then \<lfloor>dbl ((now - mm_startTime s) / 1000)\<rfloor>
                   else 0)
            in s\<lparr>mm_gameOver := True, mm_mounted := False,
                  mm_onComplete := mm_onComplete s
                    @ [Memory_calculateScore d (mm_matches s) (mm_errors s) timeUsed]\<rparr>)
      else s)"

fun MemoryCallbackRun :: "Difficulty \<Rightarrow> nat \<Rightarrow> MemoryCallback \<Rightarrow> rat \<Rightarrow> MemoryState \<Rightarrow> MemoryState" where
  "MemoryCallbackRun d ident (MatchFound first second) now s =
     MemoryEffects d now
       (s\<lparr>mm_timers := clearTimeout (Some ident) (mm_timers s),
          mm_cards := map (\<lambda>(crd, i). if i = first \<or> i = second
                                        then crd\<lparr>cd_matched := True\<rparr> else crd)
                        (zip (mm_cards s) [0..<length (mm_cards s)]),
          mm_matches := mm_matches s + 1, mm_flippedIndices := [], mm_isChecking := False\<rparr>)"
| "MemoryCallbackRun d ident (NoMatch first second) now s =
     s\<lparr>mm_timers := clearTimeout (Some ident) (mm_timers s),
       mm_cards := map (\<lambda>(crd, i). if i = first \<or> i = second
                                     then crd\<lparr>cd_flipped := False\<rparr> else crd)
                     (zip (mm_cards s) [0..<length (mm_cards s)]),
       mm_flippedIndices := [], mm_isChecking := False\<rparr>"

text \<open>
  A tick of the one-second countdown of the timed difficulty, then the effect that ends
  the game when the time has run out.
\<close>

definition MemoryTick :: "Difficulty \<Rightarrow> MemoryState \<Rightarrow> MemoryState" where
  "MemoryTick d s =
     (let timeLimit = mm_timeLimit (MemorySETTINGS d)
      in if \<not> mm_gameStarted s \<or> timeLimit = 0 \<or> mm_timeLeft s = 0 then s
         else (let timeLeft = (if mm_timeLeft s \<le> 1 then 0 else mm_timeLeft s - 1);
                   s0 = s\<lparr>mm_timeLeft := timeLeft\<rparr>
               in if timeLimit > 0 \<and> mm_gameStarted s \<and> timeLeft = 0 \<and> \<not> mm_gameOver s
                  then s0\<lparr>mm_gameOver := True, mm_mounted := False,
                          mm_onComplete := mm_onComplete s
                            @ [Memory_calculateScore d (mm_matches s) (mm_errors s) timeLimit]\<rparr>
                  else s0))"

section \<open>Digit span (games/DigitSpan.tsx)\<close>

record DigitSettings =
  ds_startLength :: nat
  ds_maxLength :: nat
  ds_displayTime :: int

fun DigitSETTINGS :: "Difficulty \<Rightarrow> DigitSettings" where
  "DigitSETTINGS easy = \<lparr>ds_startLength = 3, ds_maxLength = 6, ds_displayTime = 1200\<rparr>"
| "DigitSETTINGS normal = \<lparr>ds_startLength = 3, ds_maxLength = 8, ds_displayTime = 1000\<rparr>"
| "DigitSETTINGS hard = \<lparr>ds_startLength = 4, ds_maxLength = 10, ds_displayTime = 800\<rparr>"

text \<open>The phases \<^verbatim>\<open>'showing' | 'input' | 'feedback' | 'done'\<close>.\<close>

datatype DigitPhase = DShowing | DInput | DFeedback | DDone

text \<open>
  The timeouts of \<^verbatim>\<open>handleConfirm\<close>, with what their closures captured: after a
  correct answer (the length and the new score), after the last allowed failure (the
  score), after another failure (the length). The timers that display the digits are
  not part of the model: the input phase is where it starts.
\<close>

datatype DigitCallback = AfterCorrect nat int | AfterLastFail int | AfterFail nat

record DigitState =
  ds_phase :: DigitPhase
  ds_currentSequence :: "nat list"
  ds_playerInput :: "nat list"
  ds_sequenceLength :: nat
  ds_score :: int
  ds_showingIndex :: int
  ds_failCount :: int
  ds_longestCorrect :: nat
  ds_lastCorrect :: "bool option"
  ds_firstTryAtLength :: bool
  ds_gameOverRef :: bool
  ds_timers :: "DigitCallback timer list"
  ds_nextId :: nat
  ds_mounted :: bool
  ds_onComplete :: "int list"

definition handleNumberPress :: "nat \<Rightarrow> DigitState \<Rightarrow> DigitState" where
  "handleNumberPress num s =
     (if ds_phase s \<noteq> DInput \<or> ds_gameOverRef s then s
      else s\<lparr>ds_playerInput := ds_playerInput s @ [num]\<rparr>)"

definition handleBackspace :: "DigitState \<Rightarrow> DigitState" where
  "handleBackspace s =
     (if ds_phase s \<noteq> DInput \<or> ds_gameOverRef s then s
      else s\<lparr>ds_playerInput := butlast (ds_playerInput s)\<rparr>)"

definition handleConfirm :: "Difficulty \<Rightarrow> rat \<Rightarrow> DigitState \<Rightarrow> DigitState" where
  "handleConfirm d now s =
     (if ds_phase s \<noteq> DInput \<or> ds_gameOverRef s then s
      else
        (let reversed = rev (ds_currentSequence s);
             isCorrect = (length (ds_playerInput s) = length reversed
                          \<and> everyMatches (ds_playerInput s) reversed);
             s0 = s\<lparr>ds_lastCorrect := Some isCorrect\<rparr>
         in if isCorrect
            then (let roundScore = int (ds_sequenceLength s) * 20
                                     + (if ds_firstTryAtLength s then 10 else 0);
                      newScore = ds_score s + roundScore;
                      newLongest = max (ds_longestCorrect s) (ds_sequenceLength s)
                  in s0\<lparr>ds_score := newScore, ds_longestCorrect := newLongest,
                         ds_failCount := 0, ds_phase := DFeedback,
                         ds_timers := setTimeout (ds_nextId s) (now + 1500)
                                        (AfterCorrect (ds_sequenceLength s) newScore) (ds_timers s),
                         ds_nextId := ds_nextId s + 1\<rparr>)
            else (let newFailCount = ds_failCount s + 1;
                      maxFails = (if d = easy then 3 else 2)
                  in if newFailCount \<ge> maxFails
                     then s0\<lparr>ds_phase := DFeedback,
                             ds_timers := setTimeout (ds_nextId s) (now + 2000)
                                            (AfterLastFail (ds_score s)) (ds_timers s),
                             ds_nextId := ds_nextId s + 1\<rparr>
                     else s0\<lparr>ds_phase := DFeedback, ds_failCount := newFailCount,
                             ds_timers := setTimeout (ds_nextId s) (now + 2000)
                                            (AfterFail (ds_sequenceLength s)) (ds_timers s),
                             ds_nextId := ds_nextId s + 1\<rparr>)))"

text \<open>
  A timeout of \<^verbatim>\<open>handleConfirm\<close> fires; \<open>sq\<close> is the sequence that
  \<^verbatim>\<open>generateSequence\<close> returns where the callback asks for one.
\<close>

fun DigitCallbackRun :: "Difficulty \<Rightarrow> nat \<Rightarrow> DigitCallback \<Rightarrow> nat list \<Rightarrow> DigitState \<Rightarrow> DigitState" where
  "DigitCallbackRun d ident (AfterCorrect sequenceLength newScore) sq s =
     (let s0 = s\<lparr>ds_timers := clearTimeout (Some ident) (ds_timers s)\<rparr>;
          nextLength = sequenceLength + 1
      in if nextLength > ds_maxLength (DigitSETTINGS d)
         then s0\<lparr>ds_gameOverRef := True, ds_phase := DDone, ds_mounted := False,
                 ds_onComplete := ds_onComplete s @ [newScore]\<rparr>
         else s0\<lparr>ds_sequenceLength := nextLength, ds_currentSequence := sq,
                 ds_playerInput := [], ds_showingIndex := - 1, ds_firstTryAtLength := True,
                 ds_phase := DShowing\<rparr>)"
| "DigitCallbackRun d ident (AfterLastFail finalScore) sq s =
     s\<lparr>ds_timers := clearTimeout (Some ident) (ds_timers s), ds_gameOverRef := True,
       ds_phase := DDone, ds_mounted := False, ds_onComplete := ds_onComplete s @ [finalScore]\<rparr>"
| "DigitCallbackRun d ident (AfterFail sequenceLength) sq s =
     s\<lparr>ds_timers := clearTimeout (Some ident) (ds_timers s), ds_currentSequence := sq,
       ds_playerInput := [], ds_showingIndex := - 1, ds_firstTryAtLength := False,
       ds_phase := DShowing\<rparr>"

text \<open>Sample sessions of the other games, as mounted or after a first click.\<close>

definition ArithmeticSample :: ArithmeticState where
  "ArithmeticSample = ArithmeticInit easy \<lparr>pb_answer = 7, pb_options = [7, 8, 6, 9]\<rparr>"

definition PatternSample :: PatternState where
  "PatternSample = PatternInit [\<lparr>pq_correctIndex = 2\<rparr>, \<lparr>pq_correctIndex = 0\<rparr>] 0"

definition StroopTrial :: Trial where
  "StroopTrial =
     \<lparr>tl_word = Red, tl_inkColor = Blue, tl_correctAnswer = Blue, tl_options = [Red, Blue, Green]\<rparr>"

definition StroopSample :: StroopState where
  "StroopSample = StroopInit StroopTrial 0"

definition WordSortSample :: WordSortState where
  "WordSortSample =
     WordSortInit easy [\<lparr>wi_text = 0, wi_category = Diet\<rparr>, \<lparr>wi_text = 3, wi_category = Sleep\<rparr>]"

definition MemorySample :: MemoryState where
  "MemorySample =
     handleCardClick 0 100
       (MemoryInit easy
          (map (\<lambda>(i, icon). \<lparr>cd_id = i, cd_icon = icon, cd_flipped = False, cd_matched = False\<rparr>)
             (zip [0..<6] [0, 1, 2, 0, 1, 2])))"

definition DigitSample :: DigitState where
  "DigitSample =
     \<lparr>ds_phase = DInput, ds_currentSequence = [4, 0, 9], ds_playerInput = [9, 0, 4],
      ds_sequenceLength = 3, ds_score = 0, ds_showingIndex = - 1, ds_failCount = 0,
      ds_longestCorrect = 0, ds_lastCorrect = None, ds_firstTryAtLength = True,
      ds_gameOverRef = False, ds_timers = [], ds_nextId = 0, ds_mounted = True,
      ds_onComplete = []\<rparr>"

text \<open>Two clicks in a row, no timer firing in between.\<close>

definition twice :: "('e \<Rightarrow> rat \<Rightarrow> 's \<Rightarrow> 's) \<Rightarrow> 'e \<Rightarrow> rat \<Rightarrow> 'e \<Rightarrow> rat \<Rightarrow> 's \<Rightarrow> 's" where
  "twice click x now x' now' s = click x' now' (click x now s)"

section \<open>Properties of the double arithmetic\<close>

text \<open>
  The exponent brackets its argument, the rounding is within half a unit in the last
  place (a relative error of at most \<open>2 powi (- 53)\<close>), and an integer below \<open>2 ^ 53\<close> times
  a power of two is a double.
\<close>

lemma expo_bounds:
  assumes "0 < x"
  shows "2 powi (expo x) \<le> x" and "x < 2 powi (expo x + 1)"
proof -
  obtain p q where pq: "quotient_of x = (p, q)" by (cases "quotient_of x")
  then have q: "0 < q" and x: "x = of_int p / of_int q"
    using quotient_of_denom_pos [of x p q] quotient_of_div [of x p q] by auto
  with assms have p: "0 < p"
    by (simp add: zero_less_divide_iff)
  define e where "e = bitlen p - bitlen q"
  have bp: "2 ^ nat (bitlen p - 1) \<le> p" "p < 2 ^ nat (bitlen p)"
    using bitlen_bounds [OF p] by auto
  have bq: "2 ^ nat (bitlen q - 1) \<le> q" "q < 2 ^ nat (bitlen q)"
    using bitlen_bounds [OF q] by auto
  have lp: "1 \<le> bitlen p" and lq: "1 \<le> bitlen q"
    using p q by (auto simp: bitlen_alt_def)
  have rp: "(2::rat) powi (bitlen p - 1) \<le> of_int p" "of_int p < (2::rat) powi (bitlen p)"
  proof -
    have "(of_int (2 ^ nat (bitlen p - 1)) :: rat) \<le> of_int p"
      using bp(1) by (simp only: of_int_le_iff)
    then show "(2::rat) powi (bitlen p - 1) \<le> of_int p"
      using lp by (simp add: power_int_def)
    have "(of_int p :: rat) < of_int (2 ^ nat (bitlen p))"
      using bp(2) by (simp only: of_int_less_iff)
    then show "of_int p < (2::rat) powi (bitlen p)"
      using lp by (simp add: power_int_def)
  qed
  have rq: "(2::rat) powi (bitlen q - 1) \<le> of_int q" "of_int q < (2::rat) powi (bitlen q)"
  proof -
    have "(of_int (2 ^ nat (bitlen q - 1)) :: rat) \<le> of_int q"
      using bq(1) by (simp only: of_int_le_iff)
    then show "(2::rat) powi (bitlen q - 1) \<le> of_int q"
      using lq by (simp add: power_int_def)
    have "(of_int q :: rat) < of_int (2 ^ nat (bitlen q))"
      using bq(2) by (simp only: of_int_less_iff)
    then show "of_int q < (2::rat) powi (bitlen q)"
      using lq by (simp add: power_int_def)
  qed
  have qpos: "(0::rat) < of_int q" using q by simp
  have lower: "(2::rat) powi (e - 1) < x"
  proof -
    have "(2::rat) powi (e - 1) * of_int q < 2 powi (e - 1) * 2 powi (bitlen q)"
      using rq(2) by (simp add: mult_strict_left_mono)
    also have "\<dots> = 2 powi (bitlen p - 1)"
      by (simp add: e_def power_int_add [symmetric])
    also have "\<dots> \<le> of_int p" by (rule rp(1))
    finally show ?thesis
      using qpos by (simp add: x pos_less_divide_eq)
  qed
  have upper: "x < (2::rat) powi (e + 1)"
  proof -
    have "of_int p < (2::rat) powi (bitlen p)" by (rule rp(2))
    also have "\<dots> = 2 powi (e + 1) * 2 powi (bitlen q - 1)"
      by (simp add: e_def power_int_add [symmetric])
    also have "\<dots> \<le> 2 powi (e + 1) * of_int q"
      using rq(1) by (simp add: mult_left_mono)
    finally show ?thesis
      using qpos by (simp add: x pos_divide_less_eq)
  qed
  have ex: "expo x = (if 2 powi e \<le> x then e else e - 1)"
    by (simp add: expo_def pq e_def)
  show "2 powi (expo x) \<le> x"
    using lower by (simp add: ex)
  show "x < 2 powi (expo x + 1)"
    using upper by (auto simp: ex not_le)
qed


lemma roundHalfEven_error: "\<bar>of_int (roundHalfEven q) - q\<bar> \<le> 1 / 2"
proof -
  have "of_int \<lfloor>q\<rfloor> \<le> q" "q < of_int \<lfloor>q\<rfloor> + 1"
    by linarith+
  then show ?thesis
    by (auto simp: roundHalfEven_def Let_def)
qed

lemma roundHalfEven_of_int: "roundHalfEven (of_int n) = n"
  by (simp add: roundHalfEven_def)

lemma dbl_error:
  "\<bar>dbl x - x\<bar> \<le> \<bar>x\<bar> / 2 ^ 53"
proof (cases "x = 0")
  case True
  then show ?thesis by (simp add: dbl_def)
next
  case False
  define e where "e = expo \<bar>x\<bar>"
  define u :: rat where "u = 2 powi (e - 52)"
  have upos: "0 < u" by (simp add: u_def)
  have d: "dbl x = of_int (roundHalfEven (x / u)) * u"
    using False by (simp add: dbl_def e_def u_def Let_def)
  have "dbl x - x = (of_int (roundHalfEven (x / u)) - x / u) * u"
    using upos by (simp add: d field_simps)
  then have "\<bar>dbl x - x\<bar> = \<bar>of_int (roundHalfEven (x / u)) - x / u\<bar> * u"
    using upos by (simp add: abs_mult)
  also have "\<dots> \<le> 1 / 2 * u"
    using roundHalfEven_error [of "x / u"] upos by (simp add: mult_right_mono)
  also have "\<dots> = 2 powi e / 2 ^ 53"
  proof -
    have "(2::rat) powi (e - 52 + 52) = 2 powi (e - 52) * 2 powi 52"
      by (rule power_int_add) simp
    then show ?thesis by (simp add: u_def)
  qed
  also have "\<dots> \<le> \<bar>x\<bar> / 2 ^ 53"
    using expo_bounds(1) [of "\<bar>x\<bar>"] False by (simp add: e_def divide_right_mono)
  finally show ?thesis .
qed

lemma dbl_exact:
  assumes "\<bar>m\<bar> < 2 ^ 53"
  shows "dbl (of_int m * 2 powi k) = of_int m * 2 powi k"
proof (cases "m = 0")
  case True
  then show ?thesis by (simp add: dbl_def)
next
  case False
  define x :: rat where "x = of_int m * 2 powi k"
  have x0: "x \<noteq> 0" using False by (simp add: x_def)
  define e where "e = expo \<bar>x\<bar>"
  have ax: "\<bar>x\<bar> = of_int \<bar>m\<bar> * 2 powi k"
    by (simp add: x_def abs_mult)
  have "(of_int \<bar>m\<bar> :: rat) < of_int (2 ^ 53)"
    using assms by (simp only: of_int_less_iff)
  then have "(of_int \<bar>m\<bar> :: rat) < 2 powi 53"
    by simp
  then have "\<bar>x\<bar> < 2 powi 53 * 2 powi k"
    unfolding ax by (simp add: mult_strict_right_mono)
  then have "\<bar>x\<bar> < 2 powi (53 + k)"
    by (simp add: power_int_add)
  moreover have "2 powi e \<le> \<bar>x\<bar>"
    using expo_bounds(1) [of "\<bar>x\<bar>"] x0 by (simp add: e_def)
  ultimately have "(2::rat) powi e < 2 powi (53 + k)"
    by linarith
  then have "e < 53 + k"
    using power_int_increasing [of "53 + k" e "2::rat"] by (cases "e < 53 + k") auto
  then have "0 \<le> k - (e - 52)"
    by simp
  then obtain j :: nat where j: "k - (e - 52) = int j"
    using zero_le_imp_eq_int by blast
  have "x / 2 powi (e - 52) = of_int m * 2 powi (k - (e - 52))"
    by (simp add: x_def power_int_diff)
  also have "\<dots> = of_int (m * 2 ^ j)"
    by (simp add: j)
  finally have q: "x / 2 powi (e - 52) = of_int (m * 2 ^ j)" .
  have "dbl x = of_int (m * 2 ^ j) * 2 powi (e - 52)"
    using x0 by (simp add: dbl_def e_def [symmetric] Let_def q roundHalfEven_of_int
        del: of_int_mult of_int_power)
  also have "\<dots> = of_int m * (2 powi (int j) * 2 powi (e - 52))"
    by simp
  also have "\<dots> = of_int m * 2 powi k"
  proof -
    have "(2::rat) powi (int j + (e - 52)) = 2 powi (int j) * 2 powi (e - 52)"
      by (rule power_int_add) simp
    moreover have "int j + (e - 52) = k"
      using j by simp
    ultimately show ?thesis by simp
  qed
  finally show ?thesis by (simp add: x_def)
qed

lemma dbl_nonneg: "0 \<le> x \<Longrightarrow> 0 \<le> dbl x"
  by (auto simp: dbl_def Let_def roundHalfEven_def zero_le_mult_iff zero_le_divide_iff
      intro: add_nonneg_nonneg)


text \<open>Rounding is stable under a perturbation smaller than the distance to a tie.\<close>

lemma Math_round_near:
  fixes y :: rat and n m :: int
  assumes m: "0 < m" and near: "\<bar>y - (of_int n / of_int m - 1 / 2)\<bar> < 1 / of_int m"
  shows "n div m - 1 \<le> Math_round y" and "Math_round y \<le> n div m"
    and "n mod m \<noteq> 0 \<Longrightarrow> Math_round y = n div m"
proof -
  define e where "e = n div m"
  define r where "r = n mod m"
  have n: "n = e * m + r" and r: "0 \<le> r" "r < m"
    using m by (simp_all add: e_def r_def)
  have mpos: "(0::rat) < of_int m" using m by simp
  have q: "of_int n / of_int m = (of_int e :: rat) + of_int r / of_int m"
    using mpos by (simp add: n field_simps)
  define z where "z = y + 1 / 2"
  have zn: "\<bar>z - (of_int e + of_int r / of_int m)\<bar> < 1 / of_int m"
    using near by (simp add: z_def q algebra_simps)
  have rm: "(of_int r :: rat) / of_int m \<le> 1 - 1 / of_int m"
  proof -
    have "(of_int r :: rat) \<le> of_int m - 1"
      using r(2) by (metis of_int_1 of_int_diff of_int_le_iff zle_diff1_eq)
    then show ?thesis
      using mpos by (simp add: field_simps)
  qed
  have r0: "0 \<le> (of_int r :: rat) / of_int m"
    using r(1) mpos by simp
  have m1: "1 / (of_int m :: rat) \<le> 1"
    using m by simp
  have up: "z < of_int e + 1"
    using zn rm by linarith
  have lo: "of_int e - 1 < z"
    using zn r0 m1 by linarith
  have fl: "Math_round y = \<lfloor>z\<rfloor>"
    by (simp add: Math_round_def z_def)
  show "n div m - 1 \<le> Math_round y"
    unfolding fl e_def [symmetric] using lo by (simp add: le_floor_iff)
  show "Math_round y \<le> n div m"
    unfolding fl e_def [symmetric] using up by (simp add: floor_le_iff)
  show "Math_round y = n div m" if "n mod m \<noteq> 0"
  proof -
    from that r have "1 \<le> r" by (simp add: r_def)
    then have "(1 :: rat) \<le> of_int r"
      by (metis of_int_1 of_int_le_iff)
    then have "1 / of_int m \<le> (of_int r :: rat) / of_int m"
      using mpos by (simp add: divide_right_mono)
    then have "of_int e \<le> z"
      using zn by linarith
    then show ?thesis
      unfolding fl e_def [symmetric] using up by (simp add: floor_unique)
  qed
qed

lemma Math_round_div:
  assumes "0 < b"
  shows "Math_round (of_int a / of_int b) = (2 * a + b) div (2 * b)"
proof -
  have "of_int a / of_int b + 1 / 2 = (of_int (2 * a + b) :: rat) / of_int (2 * b)"
    using assms by (simp add: field_simps)
  then show ?thesis
    unfolding Math_round_def by (simp only: floor_divide_of_int_eq)
qed

text \<open>Rounding a quotient of integers: the division's own rounding does not show.\<close>

lemma Math_round_dbl_div:
  assumes a: "0 \<le> a" "a < 2 ^ 52" and b: "0 < b"
  shows "Math_round (dbl (of_int a / of_int b)) = Math_round (of_int a / of_int b)"
proof (cases "(2 * a + b) mod (2 * b) = 0")
  case True
  define e where "e = (2 * a + b) div (2 * b)"
  have "2 * a + b = e * (2 * b)"
    using True div_mult_mod_eq [of "2 * a + b" "2 * b"] by (simp add: e_def)
  then have "(of_int (2 * a + b) :: rat) = of_int (e * (2 * b))"
    by simp
  then have x: "(of_int a :: rat) / of_int b = of_int (2 * e - 1) * 2 powi (- 1)"
    using b by (simp add: field_simps power_int_minus)
  have "0 \<le> e"
    using a b by (simp add: e_def pos_imp_zdiv_nonneg_iff)
  moreover have "e \<le> a + 1"
  proof -
    have "a * 1 \<le> a * b"
      using a b by (intro mult_left_mono) simp_all
    then have "2 * a + b \<le> (a + 1) * (2 * b)"
      using b by (simp add: algebra_simps)
    then have "(2 * a + b) div (2 * b) \<le> ((a + 1) * (2 * b)) div (2 * b)"
      by (rule zdiv_mono1) (use b in simp)
    then show ?thesis
      using b by (simp add: e_def)
  qed
  ultimately have "\<bar>2 * e - 1\<bar> < 2 ^ 53"
    using a by simp
  then show ?thesis
    unfolding x by (simp only: dbl_exact)
next
  case False
  define x :: rat where "x = of_int a / of_int b"
  have bpos: "(0::rat) < of_int b" using b by simp
  have x0: "0 \<le> x" using a b by (simp add: x_def)
  have "(of_int a :: rat) < of_int (2 ^ 52)"
    using a(2) by (simp only: of_int_less_iff)
  then have a': "(of_int a :: rat) < 2 ^ 52" by simp
  have "\<bar>dbl x - x\<bar> \<le> x / 2 ^ 53"
    using dbl_error [of x] x0 by simp
  also have "\<dots> < 1 / of_int (2 * b)"
    using a' bpos by (simp add: x_def field_simps)
  finally have "\<bar>dbl x - (of_int (2 * a + b) / of_int (2 * b) - 1 / 2)\<bar> < 1 / of_int (2 * b)"
    using bpos by (simp add: x_def field_simps)
  then have "Math_round (dbl x) = (2 * a + b) div (2 * b)"
    using Math_round_near(3) [of "2 * b" "dbl x" "2 * a + b"] False b by simp
  then show ?thesis
    using Math_round_div [OF b, of a] by (simp add: x_def)
qed

text \<open>The two roundings of \<open>(raw / mx) * 100\<close> stay within half the distance to a tie.\<close>

lemma normalize_error:
  assumes raw: "0 \<le> raw" "raw < 2 ^ 43" and mx: "0 < mx"
  shows "\<bar>dbl (dbl (of_int raw / of_int mx) * 100)
           - (of_int (200 * raw + mx) / of_int (2 * mx) - 1 / 2)\<bar> < 1 / of_int (2 * mx)"
proof -
  define r :: rat where "r = of_int raw / of_int mx"
  define d :: rat where "d = dbl r"
  define y :: rat where "y = dbl (d * 100)"
  have mpos: "(0::rat) < of_int mx" using mx by simp
  have r0: "0 \<le> r" using raw mx by (simp add: r_def)
  have t: "of_int (200 * raw + mx) / of_int (2 * mx) - 1 / 2 = 100 * r"
    using mpos by (simp add: r_def field_simps)
  have e1: "\<bar>d - r\<bar> \<le> r / 2 ^ 53"
    using dbl_error [of r] r0 by (simp add: d_def)
  have d0: "0 \<le> d" using r0 by (simp add: d_def dbl_nonneg)
  have d2: "d \<le> 2 * r"
  proof -
    have "r / 2 ^ 53 \<le> r" using r0 by (simp add: field_simps)
    then show ?thesis using e1 by linarith
  qed
  have e2: "\<bar>y - d * 100\<bar> \<le> d * 100 / 2 ^ 53"
    using dbl_error [of "d * 100"] d0 by (simp add: y_def)
  have "\<bar>y - 100 * r\<bar> = \<bar>(y - d * 100) + 100 * (d - r)\<bar>"
    by (simp add: algebra_simps)
  also have "\<dots> \<le> \<bar>y - d * 100\<bar> + \<bar>100 * (d - r)\<bar>"
    by (rule abs_triangle_ineq)
  also have "\<dots> = \<bar>y - d * 100\<bar> + 100 * \<bar>d - r\<bar>"
    by (subst abs_mult) simp
  also have "\<dots> \<le> d * 100 / 2 ^ 53 + 100 * (r / 2 ^ 53)"
    by (intro add_mono mult_left_mono e1 e2) simp
  also have "\<dots> \<le> 2 * r * 100 / 2 ^ 53 + 100 * (r / 2 ^ 53)"
    using d2 by (simp add: divide_right_mono)
  also have "\<dots> = 300 * r / 2 ^ 53"
    by simp
  also have "\<dots> < 1 / of_int (2 * mx)"
  proof -
    have "(of_int raw :: rat) < of_int (2 ^ 43)"
      using raw(2) by (simp only: of_int_less_iff)
    then have "(of_int raw :: rat) * 600 < 2 ^ 43 * 1024"
      using raw(1) by simp
    then show ?thesis
      using mpos by (simp add: r_def field_simps)
  qed
  finally have "\<bar>y - 100 * r\<bar> < 1 / of_int (2 * mx)" .
  then show ?thesis
    unfolding t by (simp only: y_def d_def r_def)
qed

section \<open>Properties of the scoring utilities\<close>

lemma Math_round_round: "Math_round x = round x"
  by (simp add: Math_round_def round_def)

lemma Math_round_nonneg: "0 \<le> x \<Longrightarrow> 0 \<le> Math_round x"
  by (simp add: Math_round_def)

lemma dbl_of_int: "\<bar>m\<bar> < 2 ^ 53 \<Longrightarrow> dbl (of_int m) = of_int m"
  using dbl_exact [of m 0] by simp

lemma dbl_half: "\<bar>m\<bar> < 2 ^ 53 \<Longrightarrow> dbl (of_int m / 2) = of_int m / 2"
  using dbl_exact [of m "- 1"] by (simp add: power_int_minus field_simps)

lemma normalizeWithMax_near:
  assumes raw: "0 \<le> raw" "raw < 2 ^ 43" and mx: "0 < mx"
  defines "exact \<equiv> round ((of_int raw / of_int mx) * 100 :: rat)"
  shows "min 100 exact - 1 \<le> normalizeWithMax raw mx"
    and "normalizeWithMax raw mx \<le> min 100 exact"
    and "frac ((of_int raw / of_int mx) * 100 :: rat) \<noteq> 1 / 2 \<Longrightarrow> normalizeWithMax raw mx = min 100 exact"
proof -
  define y where "y = dbl (dbl (of_int raw / of_int mx) * 100)"
  have m: "0 < 2 * mx" using mx by simp
  have "(of_int raw / of_int mx) * 100 + 1 / 2 = (of_int (200 * raw + mx) :: rat) / of_int (2 * mx)"
    using mx by (simp add: field_simps)
  then have ex: "exact = (200 * raw + mx) div (2 * mx)"
    unfolding exact_def round_def by (simp only: floor_divide_of_int_eq)
  have err: "\<bar>y - (of_int (200 * raw + mx) / of_int (2 * mx) - 1 / 2)\<bar> < 1 / of_int (2 * mx)"
    unfolding y_def by (rule normalize_error [OF raw mx])
  note near = Math_round_near [OF m err]
  have n: "normalizeWithMax raw mx = min 100 (Math_round y)"
    by (simp add: normalizeWithMax_def y_def)
  show "min 100 exact - 1 \<le> normalizeWithMax raw mx"
    unfolding n ex using near(1) by linarith
  show "normalizeWithMax raw mx \<le> min 100 exact"
    unfolding n ex using near(2) by linarith
  show "normalizeWithMax raw mx = min 100 exact"
    if nt: "frac ((of_int raw / of_int mx) * 100 :: rat) \<noteq> 1 / 2"
  proof -
    have "(200 * raw + mx) mod (2 * mx) \<noteq> 0"
    proof
      assume "(200 * raw + mx) mod (2 * mx) = 0"
      then have "200 * raw + mx = exact * (2 * mx)"
        using div_mult_mod_eq [of "200 * raw + mx" "2 * mx"] by (simp add: ex)
      then have "(of_int (200 * raw + mx) :: rat) = of_int (exact * (2 * mx))"
        by simp
      then have "(of_int raw / of_int mx) * 100 = (of_int (exact - 1) :: rat) + 1 / 2"
        using mx by (simp add: field_simps)
      moreover have "\<lfloor>(of_int (exact - 1) :: rat) + 1 / 2\<rfloor> = exact - 1"
        by linarith
      ultimately have "frac ((of_int raw / of_int mx) * 100 :: rat) = 1 / 2"
        unfolding frac_def by (simp only:)
      with nt show False by simp
    qed
    then show ?thesis
      unfolding n ex using near(3) by simp
  qed
qed

lemma Math_round_of_int: "Math_round (of_int k) = k"
  unfolding Math_round_def by linarith

lemma MAX_SCORES_pos: "0 < MAX_SCORES g d"
  by (cases g; cases d) simp_all

lemma foldl_add_sum_list: "foldl (\<lambda>s g. s + f g) (a::int) gs = a + sum_list (map f gs)"
  by (induction gs arbitrary: a) simp_all

lemma normalizeScore_range:
  assumes "0 \<le> raw"
  shows "0 \<le> normalizeScore g d raw" and "normalizeScore g d raw \<le> 100"
proof -
  have "(0::rat) \<le> of_int raw / of_int (MAX_SCORES g d)"
    using assms MAX_SCORES_pos [of g d] by simp
  then have "0 \<le> dbl (of_int raw / of_int (MAX_SCORES g d)) * 100"
    by (simp add: dbl_nonneg)
  then have "0 \<le> Math_round (dbl (dbl (of_int raw / of_int (MAX_SCORES g d)) * 100))"
    by (intro Math_round_nonneg dbl_nonneg)
  then show "0 \<le> normalizeScore g d raw"
    by (simp add: normalizeScore_def normalizeWithMax_def)
  show "normalizeScore g d raw \<le> 100"
    by (simp add: normalizeScore_def normalizeWithMax_def)
qed

text \<open>
  Claim C8. The quotient \<open>raw / mx\<close> and its product with 100 are each rounded to a
  double before \<^verbatim>\<open>Math.round\<close> sees them. For a raw score from 0 to below \<open>2 ^ 43\<close>
  and a maximum \<open>mx > 0\<close>, the normalized score is \<open>min 100 (round (raw / mx * 100))\<close>
  whenever \<open>raw / mx * 100\<close> is not half-way between two integers; at a half-way value
  it is this number or one less. \<^verbatim>\<open>normalizeScore\<close> applies this to the (positive)
  table entry of the game and difficulty. A raw score of 450 against a maximum of 900
  gives 50, and 1000 against 900 gives 100, not 111.
\<close>

theorem normalizeScore_formula:
  assumes "0 \<le> raw" and "raw < 2 ^ 43" and "0 < mx"
  shows "(frac ((of_int raw / of_int mx) * 100 :: rat) \<noteq> 1 / 2 \<longrightarrow>
            normalizeWithMax raw mx = min 100 (round ((of_int raw / of_int mx) * 100 :: rat)))
       \<and> min 100 (round ((of_int raw / of_int mx) * 100 :: rat)) - 1 \<le> normalizeWithMax raw mx
       \<and> normalizeWithMax raw mx \<le> min 100 (round ((of_int raw / of_int mx) * 100 :: rat))
       \<and> normalizeScore g d raw = normalizeWithMax raw (MAX_SCORES g d)
       \<and> 0 < MAX_SCORES g d
       \<and> normalizeWithMax 450 900 = 50
       \<and> normalizeWithMax 1000 900 = 100"
proof -
  have b: "normalizeWithMax 450 900 = 50"
    by code_simp
  have c: "normalizeWithMax 1000 900 = 100"
    by code_simp
  have d: "normalizeScore g d raw = normalizeWithMax raw (MAX_SCORES g d)"
    by (simp add: normalizeScore_def)
  show ?thesis
    using normalizeWithMax_near [OF assms] b c d MAX_SCORES_pos [of g d] by blast
qed

theorem normalizeScore_formula_witness:
  "(0::int) \<le> 650 \<and> (650::int) < 2 ^ 43 \<and> (0::int) < 800
   \<and> frac ((of_int 650 / of_int 800) * 100 :: rat) \<noteq> 1 / 2
   \<and> normalizeScore schulte normal 650 = 81"
proof -
  have h: "(0::int) \<le> 650" "(650::int) < 2 ^ 43" "(0::int) < 800"
    by simp_all
  have f: "frac ((of_int 650 / of_int 800) * 100 :: rat) \<noteq> 1 / 2"
    by code_simp
  have r: "min 100 (round ((of_int 650 / of_int 800) * 100 :: rat)) = 81"
    by code_simp
  have "normalizeWithMax 650 800 = 81"
    using normalizeScore_formula [OF h, of schulte normal] f r by simp
  then have "normalizeScore schulte normal 650 = 81"
    by (simp add: normalizeScore_def)
  then show ?thesis
    using h f by blast
qed

text \<open>
  Claim C8 as stated fails at a half-way value: against the maximum 800 a raw score of
  116 is 14.5 percent. The double nearest to
  \<open>116 / 800\<close> lies below it, its product with 100 rounds to the double just below 14.5,
  and \<^verbatim>\<open>Math.round\<close> returns 14 where the rounded percentage is 15.
\<close>

theorem normalizeScore_tie_rounds_down:
  "normalizeScore reaction normal 116 = 14
   \<and> min 100 (round ((of_int 116 / of_int (MAX_SCORES reaction normal)) * 100 :: rat)) = 15
   \<and> dbl (dbl (116 / 800) * 100) < 29 / 2"
  by code_simp

section \<open>Properties of the result page\<close>

lemma playedGames_set: "set (playedGames scores) = {g. scores g \<noteq> None}"
proof -
  have "g \<in> set GAMES" for g
    by (cases g) (simp_all add: GAMES_def)
  then show ?thesis
    by (auto simp: playedGames_def)
qed

lemma playedGames_distinct: "distinct (playedGames scores)"
  by (simp add: playedGames_def GAMES_def)

lemma playedGames_length: "length (playedGames scores) \<le> 9"
proof -
  have "length (playedGames scores) \<le> length GAMES"
    unfolding playedGames_def by (rule length_filter_le)
  then show ?thesis by (simp add: GAMES_def)
qed

lemma sumNormalized_range:
  assumes "\<forall>game n. scores game = Some n \<longrightarrow> 0 \<le> n"
  shows "0 \<le> (\<Sum>game\<leftarrow>playedGames scores. normalizeScore game normal (the (scores game)))"
    and "(\<Sum>game\<leftarrow>playedGames scores. normalizeScore game normal (the (scores game))) \<le> 900"
proof -
  let ?f = "\<lambda>game. normalizeScore game normal (the (scores game))"
  have r: "0 \<le> ?f game \<and> ?f game \<le> 100" if "game \<in> set (playedGames scores)" for game
  proof -
    from that obtain n where "scores game = Some n"
      by (auto simp: playedGames_set)
    then show ?thesis
      using assms normalizeScore_range [of n game normal] by simp
  qed
  show "0 \<le> sum_list (map ?f (playedGames scores))"
    by (rule sum_list_nonneg) (use r in auto)
  have "sum_list (map ?f (playedGames scores)) \<le> sum_list (map (\<lambda>game. 100) (playedGames scores))"
    by (rule sum_list_mono) (use r in simp)
  also have "\<dots> = 100 * int (length (playedGames scores))"
    by (simp add: sum_list_triv)
  also have "\<dots> \<le> 900"
    using playedGames_length [of scores] by simp
  finally show "sum_list (map ?f (playedGames scores)) \<le> 900" .
qed

text \<open>
  Claim C7. As soon as one game has a score, and the scores are not negative, the
  aggregate average is the rounded mean of the normalized scores of the played games (the
  rounding of the quotient to a double does not move its nearest integer): the sum runs
  over exactly the games whose score is not \<^verbatim>\<open>null\<close>, each once, and is divided by
  their number, so an unplayed game enters neither the numerator nor the denominator.
  Every score is normalized against the maximum of the normal difficulty: the scores carry
  no difficulty of their own.
\<close>

theorem average_played_mean:
  assumes "scores g \<noteq> None"
    and "\<forall>game n. scores game = Some n \<longrightarrow> 0 \<le> n"
  shows "average scores =
           round (of_int (\<Sum>game\<leftarrow>playedGames scores. normalizeScore game normal (the (scores game)))
                    / of_nat (length (playedGames scores)) :: rat)
       \<and> set (playedGames scores) = {game. scores game \<noteq> None}
       \<and> distinct (playedGames scores)
       \<and> length (playedGames scores) = card {game. scores game \<noteq> None}
       \<and> (\<forall>game. normalizeScore game normal (the (scores game))
             = normalizeWithMax (the (scores game)) (MAX_SCORES game normal))"
proof -
  let ?sum = "\<Sum>game\<leftarrow>playedGames scores. normalizeScore game normal (the (scores game))"
  let ?len = "length (playedGames scores)"
  have "g \<in> set (playedGames scores)"
    using assms(1) by (simp add: playedGames_set)
  then have ne: "?len > 0"
    by (cases "playedGames scores") auto
  have "?len = card (set (playedGames scores))"
    using playedGames_distinct by (simp add: distinct_card)
  then have card: "?len = card {game. scores game \<noteq> None}"
    by (simp add: playedGames_set)
  have "0 \<le> ?sum" and "?sum < 2 ^ 52"
    using sumNormalized_range [OF assms(2)] by simp_all
  moreover have "0 < int ?len"
    using ne by simp
  ultimately have "Math_round (dbl (of_int ?sum / of_int (int ?len)))
                     = Math_round (of_int ?sum / of_int (int ?len))"
    by (rule Math_round_dbl_div)
  then have avg: "average scores = round (of_int ?sum / of_nat ?len :: rat)"
    using ne by (simp add: average_def sumNormalized_def foldl_add_sum_list Math_round_round)
  have nrm: "\<forall>game. normalizeScore game normal (the (scores game))
               = normalizeWithMax (the (scores game)) (MAX_SCORES game normal)"
    by (simp add: normalizeScore_def)
  show ?thesis
    using avg card playedGames_set [of scores] playedGames_distinct [of scores] nrm by blast
qed

theorem average_played_mean_witness:
  "[memory \<mapsto> 300, schulte \<mapsto> (800::int)] schulte \<noteq> None
   \<and> (0::int) \<le> 300 \<and> (0::int) \<le> 800
   \<and> average [memory \<mapsto> 300, schulte \<mapsto> 800] = 75
   \<and> playedGames [memory \<mapsto> 300, schulte \<mapsto> 800] = [memory, schulte]"
proof -
  let ?s = "[memory \<mapsto> 300, schulte \<mapsto> (800::int)]"
  have h: "?s schulte \<noteq> None" by simp
  have h2: "\<forall>game n. ?s game = Some n \<longrightarrow> 0 \<le> n"
    by (simp add: map_upd_Some_unfold)
  have p: "playedGames ?s = [memory, schulte]"
    by (simp add: playedGames_def GAMES_def)
  have m: "normalizeScore memory normal 300 = 50"
    by code_simp
  have s: "normalizeScore schulte normal 800 = 100"
    by code_simp
  have "average ?s =
          round (of_int (\<Sum>game\<leftarrow>playedGames ?s. normalizeScore game normal (the (?s game)))
                   / of_nat (length (playedGames ?s)) :: rat)"
    using h h2 average_played_mean [where scores = ?s and g = schulte] by blast
  then have a: "average ?s = round ((150 :: rat) / 2)"
    unfolding p by (simp add: m s)
  have "(150 :: rat) / 2 = 75" by simp
  then have "round ((150 :: rat) / 2) = 75" by (simp only: round_numeral)
  then have "average ?s = 75"
    using a by simp
  then show ?thesis
    using h p by simp
qed

section \<open>Properties of the persistence helpers\<close>

lemma loadRecords_saveRecord:
  "loadRecords (saveRecord g d sc now st) =
     (let rs = loadRecords st @ [\<lparr>tr_gameId = g, tr_difficulty = d, tr_score = sc, tr_timestamp = now\<rparr>]
      in drop (length rs - 200) rs)"
  by (simp add: saveRecord_def loadRecords_def Let_def)

lemma drop_last_append:
  "drop (length (drop (length xs - n) xs @ ys) - n) (drop (length xs - n) xs @ ys)
     = drop (length (xs @ ys) - n) (xs @ ys)"
proof (cases "length xs \<le> n")
  case True
  then show ?thesis by simp
next
  case False
  then have i1: "length (drop (length xs - n) xs @ ys) - n = length ys"
    by simp
  have i2: "length ys + (length xs - n) = length (xs @ ys) - n"
    using False by simp
  have i3: "length ys - (length xs - (length xs - n)) = length (xs @ ys) - n - length xs"
    using False by simp
  show ?thesis
    unfolding i1 by (simp only: drop_append drop_drop i2 i3 length_drop)
qed

lemma loadRecords_saveRecords:
  "loadRecords (saveRecords rs st) =
     (if rs = [] then loadRecords st
      else drop (length (loadRecords st @ rs) - 200) (loadRecords st @ rs))"
proof (induction rs arbitrary: st)
  case Nil
  then show ?case by simp
next
  case (Cons r rs)
  let ?st = "saveRecord (tr_gameId r) (tr_difficulty r) (tr_score r) (tr_timestamp r) st"
  let ?a = "loadRecords st @ [r]"
  have one: "loadRecords ?st = drop (length ?a - 200) ?a"
    by (simp add: loadRecords_saveRecord Let_def)
  show ?case
  proof (cases "rs = []")
    case True
    then show ?thesis using one by simp
  next
    case False
    have "loadRecords (saveRecords (r # rs) st)
            = drop (length (loadRecords ?st @ rs) - 200) (loadRecords ?st @ rs)"
      using Cons.IH [of ?st] False by simp
    also have "\<dots> = drop (length (?a @ rs) - 200) (?a @ rs)"
      unfolding one by (rule drop_last_append)
    finally show ?thesis by simp
  qed
qed

lemma length_last_200: "length (drop (length xs - 200) xs) \<le> 200"
  by simp

text \<open>
  Claim C9. After any \<^verbatim>\<open>saveRecord\<close> call, and so after any non-empty sequence of
  them, the stored log has at most 200 entries. Starting from an empty store the log is
  the appended records with all but the last 200 dropped from the front, in the order of
  insertion; the same holds over any store of at most 200 entries. Appending 205 records
  to an empty store leaves the last 200: the five oldest are gone.
\<close>

theorem saveRecord_keeps_last_200:
  assumes "length rs = 205"
  shows "length (loadRecords (saveRecord g d sc now st)) \<le> 200
       \<and> length (loadRecords (saveRecords (r # rs') st)) \<le> 200
       \<and> loadRecords (saveRecords rs' emptyStorage) = drop (length rs' - 200) rs'
       \<and> loadRecords (saveRecords (r # rs') st)
           = drop (length (loadRecords st @ r # rs') - 200) (loadRecords st @ r # rs')
       \<and> loadRecords (saveRecords rs emptyStorage) = drop 5 rs
       \<and> length (loadRecords (saveRecords rs emptyStorage)) = 200"
proof -
  have e: "loadRecords emptyStorage = []"
    by (simp add: loadRecords_def emptyStorage_def)
  have 1: "length (loadRecords (saveRecord g d sc now st)) \<le> 200"
    by (simp add: loadRecords_saveRecord Let_def)
  have 4: "loadRecords (saveRecords (r # rs') st)
           = drop (length (loadRecords st @ r # rs') - 200) (loadRecords st @ r # rs')"
    using loadRecords_saveRecords [of "r # rs'" st] by simp
  have 2: "length (loadRecords (saveRecords (r # rs') st)) \<le> 200"
    unfolding 4 by (rule length_last_200)
  have 3: "loadRecords (saveRecords rs' emptyStorage) = drop (length rs' - 200) rs'" for rs'
    by (simp add: loadRecords_saveRecords e)
  show ?thesis
    using 1 2 3 [of rs'] 3 [of rs] 4 assms by simp
qed

theorem saveRecord_keeps_last_200_witness:
  "length (map mkRecord [0..<205]) = 205
   \<and> loadRecords (saveRecords (map mkRecord [0..<205]) emptyStorage) = map mkRecord [5..<205]
   \<and> length (loadRecords (saveRecords (map mkRecord [0..<205]) emptyStorage)) = 200"
proof -
  have h: "length (map mkRecord [0..<205]) = 205" by simp
  have "drop 5 (map mkRecord [0..<205]) = map mkRecord [5..<205]"
    by (simp add: drop_map)
  then show ?thesis
    using saveRecord_keeps_last_200 [OF h, of schulte normal 0 0 emptyStorage "mkRecord 0" "[]"]
    by simp
qed

lemma loadBestScores_saveBestScore:
  "loadBestScores (saveBestScore g sc st) =
     (loadBestScores st)(g \<mapsto> (case loadBestScores st g of None \<Rightarrow> sc | Some b \<Rightarrow> max b sc))"
  by (auto simp: saveBestScore_def loadBestScores_def Let_def fun_eq_iff split: option.splits)

text \<open>
  Claim C10. When a best score \<open>b\<close> is stored for a game, \<^verbatim>\<open>saveBestScore\<close> leaves
  \<open>max b sc\<close> there, never less than \<open>b\<close>: a score that is not strictly greater leaves
  the whole storage as it was, a greater one is written. When nothing is stored for the
  game the score is written. The best scores of the other games and the record log are
  untouched. Saving 50 and then 40 for a game without a stored score leaves 50.
\<close>

theorem saveBestScore_monotone:
  assumes "loadBestScores st g = Some b"
  shows "loadBestScores (saveBestScore g sc st) g = Some (max b sc)
       \<and> b \<le> max b sc
       \<and> (sc \<le> b \<longrightarrow> saveBestScore g sc st = st)
       \<and> (b < sc \<longrightarrow> loadBestScores (saveBestScore g sc st) g = Some sc)
       \<and> (loadBestScores st' g = None \<longrightarrow> loadBestScores (saveBestScore g sc st') g = Some sc)
       \<and> (g' \<noteq> g \<longrightarrow> loadBestScores (saveBestScore g sc st) g' = loadBestScores st g')
       \<and> records (saveBestScore g sc st) = records st
       \<and> (loadBestScores st' g = None \<longrightarrow>
            loadBestScores (saveBestScore g 40 (saveBestScore g 50 st')) g = Some 50)"
proof -
  have 1: "loadBestScores (saveBestScore g sc st) g = Some (max b sc)"
    using assms by (simp add: loadBestScores_saveBestScore)
  have 2: "sc \<le> b \<longrightarrow> saveBestScore g sc st = st"
    using assms by (simp add: saveBestScore_def)
  have 3: "loadBestScores st' g = None \<longrightarrow> loadBestScores (saveBestScore g sc st') g = Some sc"
    by (simp add: loadBestScores_saveBestScore)
  have 4: "g' \<noteq> g \<longrightarrow> loadBestScores (saveBestScore g sc st) g' = loadBestScores st g'"
    by (simp add: loadBestScores_saveBestScore)
  have 5: "records (saveBestScore g sc st) = records st"
    by (simp add: saveBestScore_def Let_def)
  have 6: "loadBestScores st' g = None \<longrightarrow>
            loadBestScores (saveBestScore g 40 (saveBestScore g 50 st')) g = Some 50"
    by (simp add: loadBestScores_saveBestScore)
  show ?thesis
    using 1 2 3 4 5 6 by auto
qed

theorem saveBestScore_monotone_witness:
  "loadBestScores \<lparr>best_scores = Some [schulte \<mapsto> 50, memory \<mapsto> 7], records = None\<rparr> schulte
     = Some 50
   \<and> (40::int) \<le> 50
   \<and> saveBestScore schulte 40 \<lparr>best_scores = Some [schulte \<mapsto> 50, memory \<mapsto> 7], records = None\<rparr>
       = \<lparr>best_scores = Some [schulte \<mapsto> 50, memory \<mapsto> 7], records = None\<rparr>
   \<and> (50::int) < 60
   \<and> loadBestScores (saveBestScore schulte 60
        \<lparr>best_scores = Some [schulte \<mapsto> 50, memory \<mapsto> 7], records = None\<rparr>) schulte = Some 60
   \<and> memory \<noteq> schulte
   \<and> loadBestScores (saveBestScore schulte 60
        \<lparr>best_scores = Some [schulte \<mapsto> 50, memory \<mapsto> 7], records = None\<rparr>) memory = Some 7
   \<and> loadBestScores emptyStorage schulte = None
   \<and> loadBestScores (saveBestScore schulte 40 (saveBestScore schulte 50 emptyStorage)) schulte
       = Some 50"
proof -
  let ?st = "\<lparr>best_scores = Some [schulte \<mapsto> 50, memory \<mapsto> 7], records = None\<rparr>"
  have h: "loadBestScores ?st schulte = Some 50"
    by (simp add: loadBestScores_def)
  have e: "loadBestScores emptyStorage schulte = None"
    by (simp add: loadBestScores_def emptyStorage_def)
  have m: "loadBestScores ?st memory = Some 7"
    by (simp add: loadBestScores_def)
  show ?thesis
    using h e m saveBestScore_monotone [OF h, of 40 emptyStorage memory]
      saveBestScore_monotone [OF h, of 60 emptyStorage memory]
    by simp
qed

section \<open>Properties of the grid search\<close>

text \<open>One and a half times an integer target time is a double: the product is exact.\<close>

lemma Schulte_calculateScore_tier:
  assumes "\<bar>t\<bar> < 2 ^ 51"
  shows "Schulte_calculateScore e errs t = max 0 (500 + tierBonus e t - 20 * errs)"
proof -
  have "\<bar>3 * t\<bar> < 2 ^ 53"
    using assms by simp
  then have "dbl (of_int (3 * t) / 2) = of_int (3 * t) / 2"
    by (rule dbl_half)
  then have "dbl (of_int t * (3 / 2)) = 3 / 2 * of_int t"
    by (simp add: mult.commute)
  then show ?thesis
    by (simp add: Schulte_calculateScore_def tierBonus_def Let_def mult.commute)
qed

lemma SchulteSETTINGS_targetTime: "\<bar>sg_targetTime (SchulteSETTINGS d)\<bar> < 2 ^ 51"
  by (cases d) simp_all

lemma Schulte_handleCellClick_last:
  assumes "\<not> sg_finished s"
    and "at_index (sg_numbers s) i = Some (sg_nextNumber s)"
    and "sg_nextNumber s \<notin> set (sg_completed s)"
    and "sg_size (SchulteSETTINGS d) * sg_size (SchulteSETTINGS d) < sg_nextNumber s + 1"
  shows "Schulte_handleCellClick d i s =
           s\<lparr>sg_started := True,
             sg_completed := sg_completed s @ [sg_nextNumber s],
             sg_nextNumber := sg_nextNumber s + 1,
             sg_finished := True,
             sg_elapsed := tickElapsed (sg_elapsed s),
             sg_pendingComplete := sg_pendingComplete s @
               [Schulte_calculateScore (tickElapsed (sg_elapsed s)) (sg_errors s)
                  (sg_targetTime (SchulteSETTINGS d))]\<rparr>"
  using assms by (simp add: Schulte_handleCellClick_def Let_def)

text \<open>
  Claim C4. For a target time below \<open>2 ^ 51\<close> seconds (the settings have 20, 30 and 50)
  the score is \<open>max 0 (500 + bonus - 20 * errors)\<close> with the bonus 300, 200,
  100 or 0 as the elapsed time is at most the target, one and a half times the target,
  twice the target, or more; with no error and an elapsed time within the target it is
  800. The click on the last number finishes the session, and the completion callback
  then receives exactly the score of the final elapsed time and error count: 800 for a
  session without errors whose elapsed time is within the target (20 s on easy).
\<close>

theorem schulte_score:
  assumes "\<not> sg_finished s"
    and "at_index (sg_numbers s) i = Some (sg_nextNumber s)"
    and "sg_nextNumber s \<notin> set (sg_completed s)"
    and "sg_size (SchulteSETTINGS d) * sg_size (SchulteSETTINGS d) < sg_nextNumber s + 1"
    and "sg_pendingComplete s = []"
    and "s' = Schulte_handleCellClick d i s"
    and "\<bar>t\<bar> < 2 ^ 51"
  shows "Schulte_calculateScore e errs t = max 0 (500 + tierBonus e t - 20 * errs)
       \<and> (e \<le> of_int t \<longrightarrow> Schulte_calculateScore e 0 t = 800)
       \<and> sg_finished s'
       \<and> sg_onComplete (SchulteComplete s') = sg_onComplete s @
           [max 0 (500 + tierBonus (sg_elapsed s') (sg_targetTime (SchulteSETTINGS d))
                    - 20 * sg_errors s')]
       \<and> (sg_errors s' = 0 \<and> sg_elapsed s' \<le> of_int (sg_targetTime (SchulteSETTINGS d)) \<longrightarrow>
            sg_onComplete (SchulteComplete s') = sg_onComplete s @ [800])
       \<and> sg_targetTime (SchulteSETTINGS easy) = 20"
proof -
  have 1: "Schulte_calculateScore e errs t = max 0 (500 + tierBonus e t - 20 * errs)"
    if "\<bar>t\<bar> < 2 ^ 51" for e errs t
    using that by (rule Schulte_calculateScore_tier)
  have 2: "e \<le> of_int t \<longrightarrow> Schulte_calculateScore e 0 t = 800"
    by (simp add: Schulte_calculateScore_def)
  have s': "s' = s\<lparr>sg_started := True,
             sg_completed := sg_completed s @ [sg_nextNumber s],
             sg_nextNumber := sg_nextNumber s + 1,
             sg_finished := True,
             sg_elapsed := tickElapsed (sg_elapsed s),
             sg_pendingComplete := sg_pendingComplete s @
               [Schulte_calculateScore (tickElapsed (sg_elapsed s)) (sg_errors s)
                  (sg_targetTime (SchulteSETTINGS d))]\<rparr>"
    using assms(1-4,6) Schulte_handleCellClick_last [of s i d] by simp
  have 3: "sg_onComplete (SchulteComplete s') = sg_onComplete s @
           [max 0 (500 + tierBonus (sg_elapsed s') (sg_targetTime (SchulteSETTINGS d))
                    - 20 * sg_errors s')]"
    using assms(5) unfolding s' by (simp add: SchulteComplete_def 1 [OF SchulteSETTINGS_targetTime])
  have 4: "sg_errors s' = 0 \<and> sg_elapsed s' \<le> of_int (sg_targetTime (SchulteSETTINGS d)) \<longrightarrow>
            sg_onComplete (SchulteComplete s') = sg_onComplete s @ [800]"
    unfolding 3 by (simp add: tierBonus_def)
  show ?thesis
    using 1 [OF assms(7)] 2 3 4 s' by simp
qed

text \<open>The seventeenth tick of the interval: from the double of 1.6 to the double of 1.7.\<close>

lemma tickElapsed_sample: "tickElapsed (dbl (8 / 5)) = dbl (17 / 10)"
  by code_simp

lemma elapsed_sample_within: "dbl (17 / 10) \<le> 20"
  by code_simp

lemma SchulteSample_eval:
  "SchulteSample =
     \<lparr>sg_numbers = [3, 1, 2, 9, 8, 7, 4, 5, 6], sg_nextNumber = 9,
      sg_completed = [1, 2, 3, 4, 5, 6, 7, 8], sg_errors = 0, sg_elapsed = dbl (8 / 5),
      sg_started = True, sg_errorCell = None, sg_finished = False, sg_errorTimer = False,
      sg_pendingComplete = [], sg_onComplete = []\<rparr>"
  by code_simp

theorem schulte_score_witness:
  "\<not> sg_finished SchulteSample
   \<and> at_index (sg_numbers SchulteSample) 3 = Some (sg_nextNumber SchulteSample)
   \<and> sg_nextNumber SchulteSample \<notin> set (sg_completed SchulteSample)
   \<and> sg_size (SchulteSETTINGS easy) * sg_size (SchulteSETTINGS easy) < sg_nextNumber SchulteSample + 1
   \<and> sg_pendingComplete SchulteSample = []
   \<and> sg_errors (Schulte_handleCellClick easy 3 SchulteSample) = 0
   \<and> sg_elapsed (Schulte_handleCellClick easy 3 SchulteSample) = dbl (17 / 10)
   \<and> sg_elapsed (Schulte_handleCellClick easy 3 SchulteSample) \<le> of_int (sg_targetTime (SchulteSETTINGS easy))
   \<and> \<bar>20 :: int\<bar> < 2 ^ 51
   \<and> sg_onComplete (SchulteComplete (Schulte_handleCellClick easy 3 SchulteSample)) = [800]"
proof -
  have h1: "\<not> sg_finished SchulteSample"
    and h2: "at_index (sg_numbers SchulteSample) 3 = Some (sg_nextNumber SchulteSample)"
    and h3: "sg_nextNumber SchulteSample \<notin> set (sg_completed SchulteSample)"
    and h4: "sg_size (SchulteSETTINGS easy) * sg_size (SchulteSETTINGS easy)
               < sg_nextNumber SchulteSample + 1"
    and h5: "sg_pendingComplete SchulteSample = []"
    and h6: "sg_onComplete SchulteSample = []"
    by (simp_all add: SchulteSample_eval at_index_def)
  have e: "sg_errors (Schulte_handleCellClick easy 3 SchulteSample) = 0"
    "sg_elapsed (Schulte_handleCellClick easy 3 SchulteSample) = dbl (17 / 10)"
    unfolding Schulte_handleCellClick_last [OF h1 h2 h3 h4]
    using tickElapsed_sample by (simp_all add: SchulteSample_eval)
  have le: "sg_elapsed (Schulte_handleCellClick easy 3 SchulteSample)
              \<le> of_int (sg_targetTime (SchulteSETTINGS easy))"
    unfolding e using elapsed_sample_within by simp
  have n: "\<bar>20 :: int\<bar> < 2 ^ 51" by simp
  have "sg_onComplete (SchulteComplete (Schulte_handleCellClick easy 3 SchulteSample))
          = sg_onComplete SchulteSample @ [800]"
    using schulte_score [OF h1 h2 h3 h4 h5 refl n, where e = "dbl (17 / 10)" and errs = 0]
      e(1) le by blast
  then have c: "sg_onComplete (SchulteComplete (Schulte_handleCellClick easy 3 SchulteSample)) = [800]"
    using h6 by simp
  show ?thesis
    using h1 h2 h3 h4 h5 e le c n by blast
qed


section \<open>Properties of the reaction game\<close>

lemma calculateTrialScore_bounds: "0 \<le> calculateTrialScore rt \<and> calculateTrialScore rt \<le> 650"
  by (simp add: calculateTrialScore_def)

text \<open>The mean of the contributions: its rounding to a double does not move the nearest integer.\<close>

lemma ReactionFinalScore_mean:
  assumes "rts \<noteq> []" and "length rts < 2 ^ 42"
  shows "ReactionFinalScore rts =
     min 800 (round (of_int (\<Sum>rt\<leftarrow>rts. calculateTrialScore rt) / of_nat (length rts) :: rat))"
proof -
  let ?sum = "\<Sum>rt\<leftarrow>rts. calculateTrialScore rt"
  have 0: "0 \<le> ?sum"
    by (rule sum_list_nonneg) (use calculateTrialScore_bounds in auto)
  have "?sum \<le> sum_list (map (\<lambda>rt. 650) rts)"
    by (rule sum_list_mono) (use calculateTrialScore_bounds in simp)
  also have "\<dots> = 650 * int (length rts)"
    by (simp add: sum_list_triv)
  also have "\<dots> < 2 ^ 52"
    using assms(2) by simp
  finally have 1: "?sum < 2 ^ 52" .
  have 2: "0 < int (length rts)"
    using assms(1) by simp
  have "Math_round (dbl (of_int ?sum / of_int (int (length rts))))
          = Math_round (of_int ?sum / of_int (int (length rts)))"
    using 0 1 2 by (rule Math_round_dbl_div)
  then show ?thesis
    by (simp add: ReactionFinalScore_def foldl_add_sum_list Math_round_of_int Math_round_round)
qed

text \<open>
  What holds of the scoring. A reaction time \<open>rt\<close> contributes \<open>max 0 (800 - rt)\<close> when it
  is at least 150 ms and nothing below (0 at 120 ms, 550 at 250 ms). The click that
  reaches the number of trials records its reaction time (the difference of the two
  clock readings, rounded) and schedules a completion, which passes to
  \<^verbatim>\<open>onComplete\<close> the rounded mean of the contributions of the times captured by
  that click, capped at 800; the rounding of the mean to a double does not show as long
  as fewer than \<open>2 ^ 42\<close> times are captured. Whether these are the times recorded when
  the completion runs is another matter.
\<close>

lemma completion_scores_captured_times:
  assumes "rt_phase s = Signal"
    and "rt_trials (ReactionSETTINGS d) \<le> rt_currentTrial s + 1"
    and "rts = rt_reactionTimes s @ [Math_round (dbl (now - rt_signalTime s))]"
    and "length rts < 2 ^ 42"
  shows "calculateTrialScore rt = (if 150 \<le> rt then max 0 (800 - rt) else 0)
       \<and> calculateTrialScore 120 = 0
       \<and> calculateTrialScore 250 = 550
       \<and> rt_reactionTimes (handleCircleClick d now s) = rts
       \<and> rt_timers (handleCircleClick d now s)
           = rt_timers s @ [(rt_nextId s, now + 1500, AdvanceComplete rts)]
       \<and> rt_onComplete (ReactionCallbackRun d (AdvanceComplete rts) t u1 u2 s') = rt_onComplete s' @
           [min 800 (round (of_int (\<Sum>r\<leftarrow>rts. calculateTrialScore r) / of_nat (length rts) :: rat))]"
proof -
  have 1: "calculateTrialScore rt = (if 150 \<le> rt then max 0 (800 - rt) else 0)"
    by (simp add: calculateTrialScore_def)
  have 2: "calculateTrialScore 120 = 0" "calculateTrialScore 250 = 550"
    by (simp_all add: calculateTrialScore_def)
  have 3: "rt_reactionTimes (handleCircleClick d now s) = rts"
    using assms(1-3) by (simp add: handleCircleClick_def Let_def)
  have 4: "rt_timers (handleCircleClick d now s)
           = rt_timers s @ [(rt_nextId s, now + 1500, AdvanceComplete rts)]"
    using assms(1-3) by (simp add: handleCircleClick_def Let_def setTimeout_def)
  have ne: "rts \<noteq> []"
    using assms(3) by simp
  have 5: "rt_onComplete (ReactionCallbackRun d (AdvanceComplete rts) t u1 u2 s') = rt_onComplete s' @
           [min 800 (round (of_int (\<Sum>r\<leftarrow>rts. calculateTrialScore r) / of_nat (length rts) :: rat))]"
    by (simp add: ReactionOnComplete_def Let_def ReactionFinalScore_mean [OF ne assms(4)])
  show ?thesis
    using 1 2 3 4 5 by simp
qed

lemma completion_scores_captured_times_sample:
  "rt_phase lastSignal = Signal
   \<and> rt_trials (ReactionSETTINGS easy) \<le> rt_currentTrial lastSignal + 1
   \<and> length [120, 250, 250, 250, 250, 250, 250, 250 :: int] < 2 ^ 42
   \<and> rt_reactionTimes (handleCircleClick easy 20250 lastSignal)
        = [120, 250, 250, 250, 250, 250, 250, 250]
   \<and> map calculateTrialScore (rt_reactionTimes (handleCircleClick easy 20250 lastSignal))
        = [0, 550, 550, 550, 550, 550, 550, 550]
   \<and> rt_timers (handleCircleClick easy 20250 lastSignal)
        = [(1, 21750, AdvanceComplete [120, 250, 250, 250, 250, 250, 250, 250])]
   \<and> rt_onComplete (ReactionCallbackRun easy (AdvanceComplete [120, 250, 250, 250, 250, 250, 250, 250])
        21750 0 0 (handleCircleClick easy 20250 lastSignal)) = [481]"
proof -
  let ?rts = "[120, 250, 250, 250, 250, 250, 250, 250 :: int]"
  have h1: "rt_phase lastSignal = Signal"
    and h2: "rt_trials (ReactionSETTINGS easy) \<le> rt_currentTrial lastSignal + 1"
    by (simp_all add: lastSignal_def ReactionInit_def)
  have "Math_round (dbl (20250 - 20000)) = 250"
    by code_simp
  then have h3: "?rts = rt_reactionTimes lastSignal
                   @ [Math_round (dbl (20250 - rt_signalTime lastSignal))]"
    by (simp add: lastSignal_def ReactionInit_def)
  have h4: "length ?rts < 2 ^ 42"
    by simp
  have sc: "map calculateTrialScore ?rts = [0, 550, 550, 550, 550, 550, 550, 550]"
    by (simp add: calculateTrialScore_def)
  have "round ((3850 :: rat) / 8) = 481"
    using Math_round_div [of 8 3850] by (simp add: Math_round_round)
  then have m: "min 800 (round (of_int (\<Sum>r\<leftarrow>?rts. calculateTrialScore r) / of_nat (length ?rts) :: rat)) = 481"
    by (simp add: calculateTrialScore_def)
  have e: "rt_timers lastSignal = []" "rt_nextId lastSignal = 1"
    "rt_onComplete (handleCircleClick easy 20250 lastSignal) = []"
    by (simp_all add: lastSignal_def ReactionInit_def handleCircleClick_def Let_def)
  show ?thesis
    using completion_scores_captured_times [OF h1 h2 h3 h4, of 0 21750 0 0 "handleCircleClick easy 20250 lastSignal"]
      h1 h2 h4 sc e unfolding m by simp
qed

text \<open>
  Claim C5, evaluated on the hard session \<^const>\<open>lastTrick\<close>: the completion callback is
  invoked once, with 513, the rounded mean of the contributions of the fifteen times
  that the click on the trick signal captured. Sixteen times are recorded by then (the
  click on the real signal of the same trial added one), and the rounded mean of their
  contributions, capped at 800, is 516.
\<close>

theorem completion_omits_recorded_trial:
  "map_option (\<lambda>s. (rt_onComplete s, rt_reactionTimes s, rt_timers s, rt_mounted s))
      (ReactionRun hard ReactionInit lastTrick)
     = Some ([513], replicate 14 250 @ [100, 250], [], False)
   \<and> map calculateTrialScore (replicate 14 250 @ [100, 250]) = replicate 14 550 @ [0, 550]
   \<and> min 800 (round (of_int (\<Sum>rt\<leftarrow>replicate 14 250 @ [100, 250]. calculateTrialScore rt)
                       / of_nat (length (replicate 14 250 @ [100, 250 :: int])) :: rat)) = 516"
  by code_simp

text \<open>
  Claim C3, evaluated on a hard session whose first trial is a trick trial: the trick
  signal shows at 1500 ms and is due to be hidden at 1650 ms. A click 149.625 ms after it
  showed is handled in the \<^verbatim>\<open>signal\<close> phase: a reaction time of 150 ms is recorded,
  and it contributes 650 points.
\<close>

theorem trick_signal_click_scores:
  "map_option (\<lambda>s. (rt_isTrickTrial s, rt_phase s, rt_timers s))
      (ReactionRun hard ReactionInit [TimerFires 0 0, TimerFires 0 0])
     = Some (True, Signal, [(2, 1650, TrickElapsed)])
   \<and> map_option (\<lambda>s. (rt_phase s, rt_reactionTimes s, map calculateTrialScore (rt_reactionTimes s)))
      (ReactionRun hard ReactionInit [TimerFires 0 0, TimerFires 0 0, Click (1500 + 1197 / 8)])
     = Some (Result, [150], [650])"
  by code_simp

text \<open>
  Claim C2, evaluated on the hard session \<^const>\<open>doubleCompletion\<close>: the completion
  callback is invoked twice, with 513 and then with 481.
\<close>

theorem double_completion:
  "map_option rt_onComplete (ReactionRun hard ReactionInit doubleCompletion) = Some [513, 481]"
  by code_simp

text \<open>What holds of a trick trial: hiding the signal returns to \<^verbatim>\<open>ready\<close>, and a click in
  that phase is a false start that records no reaction time.\<close>

lemma trick_withdrawn_ready:
  "rt_phase (ReactionCallbackRun d TrickElapsed now u1 u2 s) = Ready"
  by (simp add: Let_def)

lemma click_when_ready_false_start:
  assumes "rt_phase s = Ready"
  shows "rt_phase (handleCircleClick d now s) = TooEarly
       \<and> rt_reactionTimes (handleCircleClick d now s) = rt_reactionTimes s
       \<and> rt_currentTrial (handleCircleClick d now s) = rt_currentTrial s"
  using assms by (simp add: handleCircleClick_def Let_def)

section \<open>Properties of the spatial recall game\<close>

lemma everyMatches_eq:
  assumes "length xs = length ys"
  shows "everyMatches xs ys = (xs = ys)"
proof -
  have "everyMatches xs ys = (\<forall>i < length xs. ys ! i = xs ! i)"
    using assms by (auto simp: everyMatches_def list_all_length at_index_def)
  then show ?thesis
    using assms by (auto simp: list_eq_iff_nth_eq)
qed

lemma wrongAttempt_used:
  assumes "pm_retryUsed s"
  shows "wrongAttempt now s =
           s\<lparr>pm_phase := PGameover,
             pm_timers := pm_timers s @ [(pm_nextId s, now + 800, FailWith (pm_score s))],
             pm_nextId := pm_nextId s + 1\<rparr>"
  using assms by (simp add: wrongAttempt_def addTimeout_def setTimeout_def)

lemma wrongAttempt_fresh:
  assumes "\<not> pm_retryUsed s"
  shows "wrongAttempt now s =
           s\<lparr>pm_retryUsed := True, pm_phase := PError,
             pm_timers := pm_timers s @ [(pm_nextId s, now + 1200, RetryShow (pm_sequence s))],
             pm_nextId := pm_nextId s + 1\<rparr>"
  using assms by (simp add: wrongAttempt_def addTimeout_def setTimeout_def)

text \<open>A wrong attempt: the click completes the input with a mismatch, or is wrong at its step.\<close>

lemma Path_handleCellClick_wrong:
  assumes "pm_phase s = PInput"
    and "if length (pm_playerInput s) + 1 = length (pm_sequence s)
         then pm_playerInput s @ [c] \<noteq> pm_sequence s
         else at_index (pm_sequence s) (length (pm_playerInput s)) \<noteq> Some c"
  shows "Path_handleCellClick d c now s = wrongAttempt now (s\<lparr>pm_playerInput := pm_playerInput s @ [c]\<rparr>)"
proof (cases "length (pm_playerInput s) + 1 = length (pm_sequence s)")
  case True
  then have "\<not> everyMatches (pm_playerInput s @ [c]) (pm_sequence s)"
    using assms(2) everyMatches_eq [of "pm_playerInput s @ [c]" "pm_sequence s"] by simp
  then show ?thesis
    using assms(1) True by (simp add: Path_handleCellClick_def Let_def)
next
  case False
  then show ?thesis
    using assms by (auto simp: Path_handleCellClick_def Let_def at_index_def nth_append)
qed

lemma showTimers_retryUsed:
  "pm_retryUsed (snd (showTimers sp now is delay s)) = pm_retryUsed s"
  by (induction "is" arbitrary: delay s) (simp_all add: Let_def addTimeout_def)

lemma startShowingSequence_retryUsed:
  "pm_retryUsed (startShowingSequence d seq now s) = pm_retryUsed s"
  by (simp add: startShowingSequence_def Let_def addTimeout_def split_beta showTimers_retryUsed)

lemma Path_handleCellClick_retryUsed:
  "pm_retryUsed s \<Longrightarrow> pm_retryUsed (Path_handleCellClick d c now s)"
  by (simp add: Path_handleCellClick_def Let_def wrongAttempt_def addTimeout_def)

lemma PathCallbackRun_retryUsed:
  assumes "PathCallbackRun d cb now us s = Some s'" and "\<forall>len. cb \<noteq> NextRound len"
  shows "pm_retryUsed s' = pm_retryUsed s"
  using assms
  by (cases cb)
    (auto simp: startShowingSequence_retryUsed PathOnComplete_def Let_def clearAllTimeouts_def
      split: if_splits)

lemma startRound_retryUsed:
  assumes "startRound d len now us s = Some s'"
  shows "\<not> pm_retryUsed s'"
  using assms by (auto simp: startRound_def Let_def addTimeout_def split: option.splits)

text \<open>
  Claim C1, as amended. The retry is per round. In the input phase, a wrong attempt (a
  click that completes the input with a mismatch, or that is wrong at its own step) made
  after the round's retry was used ends the game: the phase is \<^verbatim>\<open>gameover\<close> and the
  completion is scheduled with the score reached before the failure. Made before, it uses
  the retry: the phase is \<^verbatim>\<open>error\<close>, the sequence will be shown again and nothing is
  reported. A used retry stays used through every click and every timer callback except
  the start of the next round, and \<^verbatim>\<open>startRound\<close> gives the retry back.
\<close>

theorem retry_once_per_round:
  assumes "pm_phase s = PInput"
    and "if length (pm_playerInput s) + 1 = length (pm_sequence s)
         then pm_playerInput s @ [c] \<noteq> pm_sequence s
         else at_index (pm_sequence s) (length (pm_playerInput s)) \<noteq> Some c"
    and "s' = Path_handleCellClick d c now s"
  shows "(pm_retryUsed s \<longrightarrow>
            pm_phase s' = PGameover \<and> pm_score s' = pm_score s
          \<and> pm_timers s' = pm_timers s @ [(pm_nextId s, now + 800, FailWith (pm_score s))]
          \<and> pm_onComplete (the (PathCallbackRun d (FailWith (pm_score s)) t us s'))
              = pm_onComplete s @ [pm_score s])
       \<and> (\<not> pm_retryUsed s \<longrightarrow>
            pm_phase s' = PError \<and> pm_retryUsed s' \<and> pm_onComplete s' = pm_onComplete s
          \<and> pm_timers s' = pm_timers s @ [(pm_nextId s, now + 1200, RetryShow (pm_sequence s))])
       \<and> (pm_retryUsed s0 \<longrightarrow> pm_retryUsed (Path_handleCellClick d c' now' s0))
       \<and> (PathCallbackRun d cb t us s0 = Some s1 \<and> (\<forall>len. cb \<noteq> NextRound len) \<longrightarrow>
            pm_retryUsed s1 = pm_retryUsed s0)
       \<and> (startRound d len t' us' s2 = Some s3 \<longrightarrow> \<not> pm_retryUsed s3)"
proof -
  have w: "s' = wrongAttempt now (s\<lparr>pm_playerInput := pm_playerInput s @ [c]\<rparr>)"
    using assms Path_handleCellClick_wrong [of s c d now] by simp
  have 1: "pm_retryUsed s \<longrightarrow>
            pm_phase s' = PGameover \<and> pm_score s' = pm_score s
          \<and> pm_timers s' = pm_timers s @ [(pm_nextId s, now + 800, FailWith (pm_score s))]
          \<and> pm_onComplete (the (PathCallbackRun d (FailWith (pm_score s)) t us s'))
              = pm_onComplete s @ [pm_score s]"
    unfolding w by (simp add: wrongAttempt_used PathOnComplete_def Let_def)
  have 2: "\<not> pm_retryUsed s \<longrightarrow>
            pm_phase s' = PError \<and> pm_retryUsed s' \<and> pm_onComplete s' = pm_onComplete s
          \<and> pm_timers s' = pm_timers s @ [(pm_nextId s, now + 1200, RetryShow (pm_sequence s))]"
    unfolding w by (simp add: wrongAttempt_fresh)
  show ?thesis
    using 1 2 Path_handleCellClick_retryUsed [of s0 d c' now']
      PathCallbackRun_retryUsed [of d cb t us s0 s1] startRound_retryUsed [of d len t' us' s2 s3]
    by blast
qed

theorem retry_once_per_round_witness:
  "PathRun easy (PathInit easy [0, 1 / 8]) (replicate 6 (PathTimerFires [])) = Some firstInput
   \<and> PathRun easy (PathInit easy [0, 1 / 8]) (retryInFirstRound @ replicate 6 (PathTimerFires []))
       = Some afterFirstRetry
   \<and> pm_phase afterFirstRetry = PInput
   \<and> at_index (pm_sequence afterFirstRetry) (length (pm_playerInput afterFirstRetry)) \<noteq> Some 5
   \<and> pm_retryUsed afterFirstRetry
   \<and> pm_phase (Path_handleCellClick easy 5 8000 afterFirstRetry) = PGameover
   \<and> pm_onComplete (the (PathCallbackRun easy (FailWith 0) 8800 []
        (Path_handleCellClick easy 5 8000 afterFirstRetry))) = [0]
   \<and> pm_phase firstInput = PInput
   \<and> \<not> pm_retryUsed firstInput
   \<and> pm_phase (Path_handleCellClick easy 5 4000 firstInput) = PError
   \<and> pm_retryUsed (Path_handleCellClick easy 5 4000 firstInput)
   \<and> pm_retryUsed (Path_handleCellClick easy 0 8000 afterFirstRetry)
   \<and> PathCallbackRun easy HighlightOff 8800 [] afterFirstRetry
        = Some (afterFirstRetry\<lparr>pm_highlightIndex := - 1\<rparr>)
   \<and> pm_retryUsed (afterFirstRetry\<lparr>pm_highlightIndex := - 1\<rparr>)
   \<and> (\<exists>s. startRound easy 3 9700 [0, 1 / 8, 1 / 4] afterFirstRetry = Some s \<and> \<not> pm_retryUsed s)"
proof -
  have r1: "PathRun easy (PathInit easy [0, 1 / 8]) (replicate 6 (PathTimerFires [])) = Some firstInput"
    by code_simp
  have r2: "PathRun easy (PathInit easy [0, 1 / 8]) (retryInFirstRound @ replicate 6 (PathTimerFires []))
       = Some afterFirstRetry"
    by code_simp
  have a1: "pm_phase afterFirstRetry = PInput"
    and a2: "at_index (pm_sequence afterFirstRetry) (length (pm_playerInput afterFirstRetry)) \<noteq> Some 5"
    and a3: "pm_retryUsed afterFirstRetry"
    and a4: "pm_onComplete afterFirstRetry = []" "pm_score afterFirstRetry = 0"
    by (simp_all add: afterFirstRetry_def at_index_def)
  have a2': "if length (pm_playerInput afterFirstRetry) + 1 = length (pm_sequence afterFirstRetry)
             then pm_playerInput afterFirstRetry @ [5] \<noteq> pm_sequence afterFirstRetry
             else at_index (pm_sequence afterFirstRetry) (length (pm_playerInput afterFirstRetry)) \<noteq> Some 5"
    by (simp add: afterFirstRetry_def at_index_def)
  have b1: "pm_phase firstInput = PInput"
    and b3: "\<not> pm_retryUsed firstInput"
    by (simp_all add: firstInput_def)
  have b2': "if length (pm_playerInput firstInput) + 1 = length (pm_sequence firstInput)
             then pm_playerInput firstInput @ [5] \<noteq> pm_sequence firstInput
             else at_index (pm_sequence firstInput) (length (pm_playerInput firstInput)) \<noteq> Some 5"
    by (simp add: firstInput_def at_index_def)
  have cb: "PathCallbackRun easy HighlightOff 8800 [] afterFirstRetry
        = Some (afterFirstRetry\<lparr>pm_highlightIndex := - 1\<rparr>)"
    by simp
  have nr: "\<forall>len. HighlightOff \<noteq> NextRound len"
    by simp
  have "generateSequence 3 9 [0, 1 / 8, 1 / 4] [] = Some [0, 1, 2]"
    by code_simp
  then obtain s where sr: "startRound easy 3 9700 [0, 1 / 8, 1 / 4] afterFirstRetry = Some s"
    by (simp add: startRound_def Let_def del: generateSequence.simps)
  note T = retry_once_per_round [OF a1 a2' refl, of easy 8000 8800 "[]" afterFirstRetry 0 8000
      HighlightOff "afterFirstRetry\<lparr>pm_highlightIndex := - 1\<rparr>" 3 9700 "[0, 1 / 8, 1 / 4]"
      afterFirstRetry s]
  note U = retry_once_per_round [OF b1 b2' refl, of easy 4000 5200 "[]" afterFirstRetry 0 8000
      HighlightOff "afterFirstRetry\<lparr>pm_highlightIndex := - 1\<rparr>" 3 9700 "[0, 1 / 8, 1 / 4]"
      afterFirstRetry s]
  have t1: "pm_phase (Path_handleCellClick easy 5 8000 afterFirstRetry) = PGameover"
    and t2: "pm_onComplete (the (PathCallbackRun easy (FailWith 0) 8800 []
        (Path_handleCellClick easy 5 8000 afterFirstRetry))) = [0]"
    using T a3 a4 by simp_all
  have t3: "pm_retryUsed (Path_handleCellClick easy 0 8000 afterFirstRetry)"
    using T a3 by blast
  have t4: "pm_retryUsed (afterFirstRetry\<lparr>pm_highlightIndex := - 1\<rparr>)"
    using T cb nr a3 by blast
  have t5: "\<not> pm_retryUsed s"
    using T sr by blast
  have u1: "pm_phase (Path_handleCellClick easy 5 4000 firstInput) = PError"
    and u2: "pm_retryUsed (Path_handleCellClick easy 5 4000 firstInput)"
    using U b3 by simp_all
  show ?thesis
    using r1 r2 a1 a2 a3 t1 t2 b1 b3 u1 u2 t3 cb t4 sr t5 by blast
qed

text \<open>
  Claim C1 as stated fails on the easy session \<^const>\<open>retryInBothRounds\<close>: the wrong click
  of the first round uses the retry, and the wrong click of the second round is granted a
  retry again (phase \<^verbatim>\<open>error\<close>, the replay scheduled, nothing reported) instead of
  ending the session.
\<close>

theorem retry_granted_again_in_next_round:
  "PathRun easy (PathInit easy [0, 1 / 8]) retryInFirstRound =
     Some \<lparr>pm_phase = PError, pm_sequence = [0, 1], pm_playerInput = [5],
           pm_currentLength = 2, pm_highlightIndex = - 1, pm_score = 0,
           pm_retryUsed = True, pm_timers = [(6, 5200, RetryShow [0, 1])],
           pm_nextId = 7, pm_clock = 4000, pm_mounted = True, pm_onComplete = []\<rparr>
   \<and> PathRun easy (PathInit easy [0, 1 / 8]) retryInBothRounds =
     Some \<lparr>pm_phase = PError, pm_sequence = [0, 1, 2], pm_playerInput = [5],
           pm_currentLength = 3, pm_highlightIndex = - 1, pm_score = 100,
           pm_retryUsed = True, pm_timers = [(21, 16200, RetryShow [0, 1, 2])],
           pm_nextId = 22, pm_clock = 15000, pm_mounted = True, pm_onComplete = []\<rparr>"
  by code_simp

section \<open>Properties of the input guards\<close>

lemma Arithmetic_handleOptionClick_processing: "ar_isProcessing s \<Longrightarrow> Arithmetic_handleOptionClick d v now s = s"
  by (simp add: Arithmetic_handleOptionClick_def)

lemma Arithmetic_handleOptionClick_accepted:
  assumes "\<not> ar_isProcessing s" and "ar_gameActive s"
  shows "ar_isProcessing (Arithmetic_handleOptionClick d v now s)"
    and "ar_totalAttempted (Arithmetic_handleOptionClick d v now s) = ar_totalAttempted s + 1"
    and "ar_score (Arithmetic_handleOptionClick d v now s) =
           (if v = pb_answer (ar_currentProblem s)
            then ar_score s + ar_pointsPerCorrect (ArithmeticSETTINGS d)
                   + min (ar_streak s * ar_comboBonus (ArithmeticSETTINGS d))
                         (ar_maxComboExtra (ArithmeticSETTINGS d))
            else ar_score s)"
    and "ar_streak (Arithmetic_handleOptionClick d v now s) =
           (if v = pb_answer (ar_currentProblem s) then ar_streak s + 1 else 0)"
    and "ar_timers (Arithmetic_handleOptionClick d v now s) =
           ar_timers s @ [(ar_nextId s,
              now + (if v = pb_answer (ar_currentProblem s) then 400 else 800), ArNextProblem)]"
    and "ar_problemIndex (Arithmetic_handleOptionClick d v now s) = ar_problemIndex s"
    and "ar_gameActive (Arithmetic_handleOptionClick d v now s)"
  using assms by (simp_all add: Arithmetic_handleOptionClick_def Let_def setTimeout_def)

lemma Arithmetic_handleOptionClick_twice:
  "Arithmetic_handleOptionClick d v' now' (Arithmetic_handleOptionClick d v now s) = Arithmetic_handleOptionClick d v now s"
proof (cases "\<not> ar_isProcessing s \<and> ar_gameActive s")
  case True
  then show ?thesis
    using Arithmetic_handleOptionClick_accepted(1) [of s d v now] by (simp add: Arithmetic_handleOptionClick_processing)
next
  case False
  then have "Arithmetic_handleOptionClick d v now s = s"
    by (auto simp: Arithmetic_handleOptionClick_def Let_def)
  moreover from False have "Arithmetic_handleOptionClick d v' now' s = s"
    by (auto simp: Arithmetic_handleOptionClick_def Let_def)
  ultimately show ?thesis by simp
qed

lemma Pattern_handleOptionClick_processing: "pr_isProcessing s \<Longrightarrow> Pattern_handleOptionClick d i now s = s"
  by (simp add: Pattern_handleOptionClick_def)

lemma Pattern_handleOptionClick_accepted:
  assumes "\<not> pr_isProcessing s" and "pr_feedback s = None"
    and "at_index (pr_questions s) (pr_currentQuestion s) = Some q"
  shows "pr_isProcessing (Pattern_handleOptionClick d i now s)"
    and "pr_score (Pattern_handleOptionClick d i now s) =
           (if i = pq_correctIndex q
            then pr_score s + pr_pointsPerCorrect (PatternSETTINGS d)
                   + (if now - pr_questionStartTime s \<le> SPEED_THRESHOLD_MS then SPEED_BONUS else 0)
            else pr_score s)"
    and "pr_timers (Pattern_handleOptionClick d i now s) =
           pr_timers s @ [(pr_nextId s, now + 800, PrAdvance (pr_currentQuestion s))]"
    and "pr_currentQuestion (Pattern_handleOptionClick d i now s) = pr_currentQuestion s"
  using assms by (simp_all add: Pattern_handleOptionClick_def Let_def setTimeout_def)

lemma Pattern_handleOptionClick_rejected:
  assumes "pr_isProcessing s \<or> pr_feedback s \<noteq> None
           \<or> at_index (pr_questions s) (pr_currentQuestion s) = None"
  shows "Pattern_handleOptionClick d i now s = s"
  using assms by (auto simp: Pattern_handleOptionClick_def)

lemma Pattern_handleOptionClick_twice:
  "Pattern_handleOptionClick d i' now' (Pattern_handleOptionClick d i now s) = Pattern_handleOptionClick d i now s"
proof (cases "pr_isProcessing s \<or> pr_feedback s \<noteq> None
           \<or> at_index (pr_questions s) (pr_currentQuestion s) = None")
  case True
  then show ?thesis by (simp add: Pattern_handleOptionClick_rejected)
next
  case False
  then obtain q where "at_index (pr_questions s) (pr_currentQuestion s) = Some q"
    by auto
  with False show ?thesis
    using Pattern_handleOptionClick_accepted(1) [of s q d i now] by (simp add: Pattern_handleOptionClick_processing)
qed

lemma Stroop_handleOptionClick_processing: "sp_isProcessing s \<Longrightarrow> Stroop_handleOptionClick d c now s = s"
  by (simp add: Stroop_handleOptionClick_def)

lemma Stroop_handleOptionClick_sets_flag:
  "\<not> sp_isProcessing s \<Longrightarrow> sp_isProcessing (Stroop_handleOptionClick d c now s)"
  by (simp add: Stroop_handleOptionClick_def Let_def)

lemma Stroop_handleOptionClick_twice:
  "Stroop_handleOptionClick d c' now' (Stroop_handleOptionClick d c now s) = Stroop_handleOptionClick d c now s"
  by (cases "sp_isProcessing s")
    (simp_all add: Stroop_handleOptionClick_processing Stroop_handleOptionClick_sets_flag)

lemma WordSort_handleCategoryClick_processing: "ws_isProcessing s \<Longrightarrow> WordSort_handleCategoryClick k now s = s"
  by (simp add: WordSort_handleCategoryClick_def)

lemma WordSort_handleCategoryClick_accepted:
  assumes "\<not> ws_isProcessing s" and "\<not> ws_gameOverRef s" and "\<not> ws_gameOver s"
    and "at_index (ws_words s) (ws_currentIndex s) = Some w"
  shows "ws_isProcessing (WordSort_handleCategoryClick k now s)"
    and "ws_score (WordSort_handleCategoryClick k now s) =
           (if k = wi_category w
            then ws_score s + 10 + (if 3 \<le> ws_streak s + 1 \<and> (ws_streak s + 1) mod 3 = 0
                                    then 15 else 0)
            else ws_score s - 5)"
    and "ws_streak (WordSort_handleCategoryClick k now s) = (if k = wi_category w then ws_streak s + 1 else 0)"
    and "ws_timers (WordSort_handleCategoryClick k now s) =
           ws_timers s @ [(ws_nextId s, now + (if k = wi_category w then 400 else 600),
                           WsAdvance (ws_currentIndex s))]"
    and "ws_currentIndex (WordSort_handleCategoryClick k now s) = ws_currentIndex s"
  using assms by (simp_all add: WordSort_handleCategoryClick_def Let_def setTimeout_def)

lemma WordSort_handleCategoryClick_rejected:
  assumes "ws_isProcessing s \<or> ws_gameOverRef s \<or> ws_gameOver s
           \<or> at_index (ws_words s) (ws_currentIndex s) = None"
  shows "WordSort_handleCategoryClick k now s = s"
  using assms by (auto simp: WordSort_handleCategoryClick_def)

lemma WordSort_handleCategoryClick_twice:
  "WordSort_handleCategoryClick k' now' (WordSort_handleCategoryClick k now s) = WordSort_handleCategoryClick k now s"
proof (cases "ws_isProcessing s \<or> ws_gameOverRef s \<or> ws_gameOver s
           \<or> at_index (ws_words s) (ws_currentIndex s) = None")
  case True
  then show ?thesis by (simp add: WordSort_handleCategoryClick_rejected)
next
  case False
  then obtain w where "at_index (ws_words s) (ws_currentIndex s) = Some w"
    by auto
  with False show ?thesis
    using WordSort_handleCategoryClick_accepted(1) [of s w k now] by (simp add: WordSort_handleCategoryClick_processing)
qed

lemma Stroop_handleOptionClick_accepted:
  assumes "\<not> sp_isProcessing s" and "sp_trial s = Some t"
  shows "sp_score (Stroop_handleOptionClick d c now s) =
           (if c = tl_correctAnswer t
            then sp_score s + 10 + (if now - sp_trialStartTime s \<le> 2000 then 5 else 0)
                   + (if sp_streak s + 1 = 10 then 50 else if sp_streak s + 1 = 5 then 20 else 0)
            else max 0 (sp_score s - 5))"
    and "sp_streak (Stroop_handleOptionClick d c now s) = (if c = tl_correctAnswer t then sp_streak s + 1 else 0)"
    and "sp_roundRef (Stroop_handleOptionClick d c now s) =
           (if sp_roundRef s + 1 > sp_totalRounds (StroopSETTINGS d) then sp_roundRef s
            else sp_roundRef s + 1)"
    and "sp_timers (Stroop_handleOptionClick d c now s) =
           sp_timers s @ [(sp_nextId s, now + 400,
              if sp_roundRef s + 1 > sp_totalRounds (StroopSETTINGS d) then SpComplete
              else SpLoadTrial)]"
  using assms by (simp_all add: Stroop_handleOptionClick_def Let_def setTimeout_def)

lemma handleCardClick_checking: "mm_isChecking s \<Longrightarrow> handleCardClick j now s = s"
  by (simp add: handleCardClick_def)


lemma ArithmeticFeedbackDone_releases:
  assumes "ar_gameActive s"
  shows "\<not> ar_isProcessing (ArithmeticFeedbackDone ident pb s)"
    and "ar_problemIndex (ArithmeticFeedbackDone ident pb s) = ar_problemIndex s + 1"
  using assms by (simp_all add: ArithmeticFeedbackDone_def nextProblem_def Let_def)

text \<open>
  What holds of the guards. In every game that has a processing guard (\<^verbatim>\<open>isProcessing\<close> in the
  arithmetic, pattern, interference and categorization games, \<^verbatim>\<open>isChecking\<close> in
  memory match) a click handled while the guard is set returns the session state as it
  was. In the four answer games a second click before the feedback timeout fires changes
  nothing: after two clicks the state is that after the first, so an accepted click
  updates the score and the streak once and leaves one advance pending (in the arithmetic
  game the timeout then moves to the next problem once and releases the guard). The games
  without such a flag drop input by their own guard: the phase in spatial recall, the
  reaction game and digit span, \<^verbatim>\<open>finishedRef\<close> in the grid search.
\<close>

lemma flagged_guards_ignore_input:
  "(ar_isProcessing a \<longrightarrow> Arithmetic_handleOptionClick d v now a = a)
 \<and> (pr_isProcessing p \<longrightarrow> Pattern_handleOptionClick d i now p = p)
 \<and> (sp_isProcessing t \<longrightarrow> Stroop_handleOptionClick d c now t = t)
 \<and> (ws_isProcessing w \<longrightarrow> WordSort_handleCategoryClick k now w = w)
 \<and> (mm_isChecking m \<longrightarrow> handleCardClick j now m = m)
 \<and> twice (Arithmetic_handleOptionClick d) v now v' now' afresh = Arithmetic_handleOptionClick d v now afresh
 \<and> twice (Pattern_handleOptionClick d) i now i' now' pfresh = Pattern_handleOptionClick d i now pfresh
 \<and> twice (Stroop_handleOptionClick d) c now c' now' tfresh = Stroop_handleOptionClick d c now tfresh
 \<and> twice WordSort_handleCategoryClick k now k' now' wfresh = WordSort_handleCategoryClick k now wfresh
 \<and> (\<not> ar_isProcessing afresh \<and> ar_gameActive afresh \<longrightarrow>
       ar_isProcessing (twice (Arithmetic_handleOptionClick d) v now v' now' afresh)
     \<and> ar_score (twice (Arithmetic_handleOptionClick d) v now v' now' afresh) =
         (if v = pb_answer (ar_currentProblem afresh)
          then ar_score afresh + ar_pointsPerCorrect (ArithmeticSETTINGS d)
                 + min (ar_streak afresh * ar_comboBonus (ArithmeticSETTINGS d))
                       (ar_maxComboExtra (ArithmeticSETTINGS d))
          else ar_score afresh)
     \<and> ar_streak (twice (Arithmetic_handleOptionClick d) v now v' now' afresh) =
         (if v = pb_answer (ar_currentProblem afresh) then ar_streak afresh + 1 else 0)
     \<and> ar_timers (twice (Arithmetic_handleOptionClick d) v now v' now' afresh) =
         ar_timers afresh @ [(ar_nextId afresh,
            now + (if v = pb_answer (ar_currentProblem afresh) then 400 else 800), ArNextProblem)]
     \<and> ar_problemIndex (twice (Arithmetic_handleOptionClick d) v now v' now' afresh) = ar_problemIndex afresh
     \<and> ar_problemIndex (ArithmeticFeedbackDone (ar_nextId afresh) pb
           (twice (Arithmetic_handleOptionClick d) v now v' now' afresh)) = ar_problemIndex afresh + 1
     \<and> \<not> ar_isProcessing (ArithmeticFeedbackDone (ar_nextId afresh) pb
           (twice (Arithmetic_handleOptionClick d) v now v' now' afresh)))
 \<and> (\<not> pr_isProcessing pfresh \<and> pr_feedback pfresh = None
      \<and> at_index (pr_questions pfresh) (pr_currentQuestion pfresh) = Some q \<longrightarrow>
       pr_isProcessing (twice (Pattern_handleOptionClick d) i now i' now' pfresh)
     \<and> pr_score (twice (Pattern_handleOptionClick d) i now i' now' pfresh) =
         (if i = pq_correctIndex q
          then pr_score pfresh + pr_pointsPerCorrect (PatternSETTINGS d)
                 + (if now - pr_questionStartTime pfresh \<le> SPEED_THRESHOLD_MS then SPEED_BONUS else 0)
          else pr_score pfresh)
     \<and> pr_timers (twice (Pattern_handleOptionClick d) i now i' now' pfresh) =
         pr_timers pfresh @ [(pr_nextId pfresh, now + 800, PrAdvance (pr_currentQuestion pfresh))]
     \<and> pr_currentQuestion (twice (Pattern_handleOptionClick d) i now i' now' pfresh) = pr_currentQuestion pfresh)
 \<and> (\<not> sp_isProcessing tfresh \<and> sp_trial tfresh = Some tr \<longrightarrow>
       sp_isProcessing (twice (Stroop_handleOptionClick d) c now c' now' tfresh)
     \<and> sp_score (twice (Stroop_handleOptionClick d) c now c' now' tfresh) =
         (if c = tl_correctAnswer tr
          then sp_score tfresh + 10 + (if now - sp_trialStartTime tfresh \<le> 2000 then 5 else 0)
                 + (if sp_streak tfresh + 1 = 10 then 50 else if sp_streak tfresh + 1 = 5 then 20 else 0)
          else max 0 (sp_score tfresh - 5))
     \<and> sp_streak (twice (Stroop_handleOptionClick d) c now c' now' tfresh) =
         (if c = tl_correctAnswer tr then sp_streak tfresh + 1 else 0)
     \<and> sp_roundRef (twice (Stroop_handleOptionClick d) c now c' now' tfresh) =
         (if sp_roundRef tfresh + 1 > sp_totalRounds (StroopSETTINGS d) then sp_roundRef tfresh
          else sp_roundRef tfresh + 1)
     \<and> sp_timers (twice (Stroop_handleOptionClick d) c now c' now' tfresh) =
         sp_timers tfresh @ [(sp_nextId tfresh, now + 400,
            if sp_roundRef tfresh + 1 > sp_totalRounds (StroopSETTINGS d) then SpComplete
            else SpLoadTrial)])
 \<and> (\<not> ws_isProcessing wfresh \<and> \<not> ws_gameOverRef wfresh \<and> \<not> ws_gameOver wfresh
      \<and> at_index (ws_words wfresh) (ws_currentIndex wfresh) = Some wd \<longrightarrow>
       ws_isProcessing (twice WordSort_handleCategoryClick k now k' now' wfresh)
     \<and> ws_score (twice WordSort_handleCategoryClick k now k' now' wfresh) =
         (if k = wi_category wd
          then ws_score wfresh + 10 + (if 3 \<le> ws_streak wfresh + 1 \<and> (ws_streak wfresh + 1) mod 3 = 0
                                   then 15 else 0)
          else ws_score wfresh - 5)
     \<and> ws_streak (twice WordSort_handleCategoryClick k now k' now' wfresh) =
         (if k = wi_category wd then ws_streak wfresh + 1 else 0)
     \<and> ws_timers (twice WordSort_handleCategoryClick k now k' now' wfresh) =
         ws_timers wfresh @ [(ws_nextId wfresh, now + (if k = wi_category wd then 400 else 600),
                          WsAdvance (ws_currentIndex wfresh))]
     \<and> ws_currentIndex (twice WordSort_handleCategoryClick k now k' now' wfresh) = ws_currentIndex wfresh)
 \<and> (pm_phase pth \<noteq> PInput \<longrightarrow> Path_handleCellClick d cell now pth = pth)
 \<and> (rt_phase r \<noteq> Ready \<and> rt_phase r \<noteq> Signal \<longrightarrow> handleCircleClick d now r = r)
 \<and> (ds_phase g \<noteq> DInput \<or> ds_gameOverRef g \<longrightarrow>
       handleConfirm d now g = g \<and> handleNumberPress n g = g \<and> handleBackspace g = g)
 \<and> (sg_finished h \<longrightarrow> Schulte_handleCellClick d j h = h)"
proof -
  have A: "\<not> ar_isProcessing afresh \<and> ar_gameActive afresh \<longrightarrow>
       ar_isProcessing (twice (Arithmetic_handleOptionClick d) v now v' now' afresh)
     \<and> ar_score (twice (Arithmetic_handleOptionClick d) v now v' now' afresh) =
         (if v = pb_answer (ar_currentProblem afresh)
          then ar_score afresh + ar_pointsPerCorrect (ArithmeticSETTINGS d)
                 + min (ar_streak afresh * ar_comboBonus (ArithmeticSETTINGS d))
                       (ar_maxComboExtra (ArithmeticSETTINGS d))
          else ar_score afresh)
     \<and> ar_streak (twice (Arithmetic_handleOptionClick d) v now v' now' afresh) =
         (if v = pb_answer (ar_currentProblem afresh) then ar_streak afresh + 1 else 0)
     \<and> ar_timers (twice (Arithmetic_handleOptionClick d) v now v' now' afresh) =
         ar_timers afresh @ [(ar_nextId afresh,
            now + (if v = pb_answer (ar_currentProblem afresh) then 400 else 800), ArNextProblem)]
     \<and> ar_problemIndex (twice (Arithmetic_handleOptionClick d) v now v' now' afresh) = ar_problemIndex afresh
     \<and> ar_problemIndex (ArithmeticFeedbackDone (ar_nextId afresh) pb
           (twice (Arithmetic_handleOptionClick d) v now v' now' afresh)) = ar_problemIndex afresh + 1
     \<and> \<not> ar_isProcessing (ArithmeticFeedbackDone (ar_nextId afresh) pb
           (twice (Arithmetic_handleOptionClick d) v now v' now' afresh))"
    unfolding twice_def Arithmetic_handleOptionClick_twice
    using Arithmetic_handleOptionClick_accepted [of afresh d v now]
      ArithmeticFeedbackDone_releases [of "Arithmetic_handleOptionClick d v now afresh" "ar_nextId afresh" pb]
    by simp
  have P: "\<not> pr_isProcessing pfresh \<and> pr_feedback pfresh = None
      \<and> at_index (pr_questions pfresh) (pr_currentQuestion pfresh) = Some q \<longrightarrow>
       pr_isProcessing (twice (Pattern_handleOptionClick d) i now i' now' pfresh)
     \<and> pr_score (twice (Pattern_handleOptionClick d) i now i' now' pfresh) =
         (if i = pq_correctIndex q
          then pr_score pfresh + pr_pointsPerCorrect (PatternSETTINGS d)
                 + (if now - pr_questionStartTime pfresh \<le> SPEED_THRESHOLD_MS then SPEED_BONUS else 0)
          else pr_score pfresh)
     \<and> pr_timers (twice (Pattern_handleOptionClick d) i now i' now' pfresh) =
         pr_timers pfresh @ [(pr_nextId pfresh, now + 800, PrAdvance (pr_currentQuestion pfresh))]
     \<and> pr_currentQuestion (twice (Pattern_handleOptionClick d) i now i' now' pfresh) = pr_currentQuestion pfresh"
    unfolding twice_def Pattern_handleOptionClick_twice
    using Pattern_handleOptionClick_accepted [of pfresh q d i now] by simp
  have S: "\<not> sp_isProcessing tfresh \<and> sp_trial tfresh = Some tr \<longrightarrow>
       sp_isProcessing (twice (Stroop_handleOptionClick d) c now c' now' tfresh)
     \<and> sp_score (twice (Stroop_handleOptionClick d) c now c' now' tfresh) =
         (if c = tl_correctAnswer tr
          then sp_score tfresh + 10 + (if now - sp_trialStartTime tfresh \<le> 2000 then 5 else 0)
                 + (if sp_streak tfresh + 1 = 10 then 50 else if sp_streak tfresh + 1 = 5 then 20 else 0)
          else max 0 (sp_score tfresh - 5))
     \<and> sp_streak (twice (Stroop_handleOptionClick d) c now c' now' tfresh) =
         (if c = tl_correctAnswer tr then sp_streak tfresh + 1 else 0)
     \<and> sp_roundRef (twice (Stroop_handleOptionClick d) c now c' now' tfresh) =
         (if sp_roundRef tfresh + 1 > sp_totalRounds (StroopSETTINGS d) then sp_roundRef tfresh
          else sp_roundRef tfresh + 1)
     \<and> sp_timers (twice (Stroop_handleOptionClick d) c now c' now' tfresh) =
         sp_timers tfresh @ [(sp_nextId tfresh, now + 400,
            if sp_roundRef tfresh + 1 > sp_totalRounds (StroopSETTINGS d) then SpComplete
            else SpLoadTrial)]"
    unfolding twice_def Stroop_handleOptionClick_twice
    using Stroop_handleOptionClick_accepted [of tfresh tr d c now] Stroop_handleOptionClick_sets_flag [of tfresh d c now] by simp
  have W: "\<not> ws_isProcessing wfresh \<and> \<not> ws_gameOverRef wfresh \<and> \<not> ws_gameOver wfresh
      \<and> at_index (ws_words wfresh) (ws_currentIndex wfresh) = Some wd \<longrightarrow>
       ws_isProcessing (twice WordSort_handleCategoryClick k now k' now' wfresh)
     \<and> ws_score (twice WordSort_handleCategoryClick k now k' now' wfresh) =
         (if k = wi_category wd
          then ws_score wfresh + 10 + (if 3 \<le> ws_streak wfresh + 1 \<and> (ws_streak wfresh + 1) mod 3 = 0
                                   then 15 else 0)
          else ws_score wfresh - 5)
     \<and> ws_streak (twice WordSort_handleCategoryClick k now k' now' wfresh) =
         (if k = wi_category wd then ws_streak wfresh + 1 else 0)
     \<and> ws_timers (twice WordSort_handleCategoryClick k now k' now' wfresh) =
         ws_timers wfresh @ [(ws_nextId wfresh, now + (if k = wi_category wd then 400 else 600),
                          WsAdvance (ws_currentIndex wfresh))]
     \<and> ws_currentIndex (twice WordSort_handleCategoryClick k now k' now' wfresh) = ws_currentIndex wfresh"
    unfolding twice_def WordSort_handleCategoryClick_twice
    using WordSort_handleCategoryClick_accepted [of wfresh wd k now] by simp
  have G: "pm_phase pth \<noteq> PInput \<longrightarrow> Path_handleCellClick d cell now pth = pth"
    by (simp add: Path_handleCellClick_def)
  have R: "rt_phase r \<noteq> Ready \<and> rt_phase r \<noteq> Signal \<longrightarrow> handleCircleClick d now r = r"
    by (cases "rt_phase r") (simp_all add: handleCircleClick_def)
  have D: "ds_phase g \<noteq> DInput \<or> ds_gameOverRef g \<longrightarrow>
       handleConfirm d now g = g \<and> handleNumberPress n g = g \<and> handleBackspace g = g"
    by (auto simp: handleConfirm_def handleNumberPress_def handleBackspace_def)
  have H: "sg_finished h \<longrightarrow> Schulte_handleCellClick d j h = h"
    by (simp add: Schulte_handleCellClick_def Let_def)
  have T: "twice (Arithmetic_handleOptionClick d) v now v' now' afresh = Arithmetic_handleOptionClick d v now afresh"
    "twice (Pattern_handleOptionClick d) i now i' now' pfresh = Pattern_handleOptionClick d i now pfresh"
    "twice (Stroop_handleOptionClick d) c now c' now' tfresh = Stroop_handleOptionClick d c now tfresh"
    "twice WordSort_handleCategoryClick k now k' now' wfresh = WordSort_handleCategoryClick k now wfresh"
    by (simp_all add: twice_def Arithmetic_handleOptionClick_twice Pattern_handleOptionClick_twice Stroop_handleOptionClick_twice
        WordSort_handleCategoryClick_twice)
  have F: "ar_isProcessing a \<longrightarrow> Arithmetic_handleOptionClick d v now a = a"
    "pr_isProcessing p \<longrightarrow> Pattern_handleOptionClick d i now p = p"
    "sp_isProcessing t \<longrightarrow> Stroop_handleOptionClick d c now t = t"
    "ws_isProcessing w \<longrightarrow> WordSort_handleCategoryClick k now w = w"
    "mm_isChecking m \<longrightarrow> handleCardClick j now m = m"
    by (simp_all add: Arithmetic_handleOptionClick_processing Pattern_handleOptionClick_processing Stroop_handleOptionClick_processing
        WordSort_handleCategoryClick_processing handleCardClick_checking)
  show ?thesis
    using F T A P S W G R D H by (intro conjI)
qed


lemma flagged_guards_ignore_input_sample:
  "ar_isProcessing (Arithmetic_handleOptionClick easy 7 1000 ArithmeticSample)
 \<and> Arithmetic_handleOptionClick easy 7 1000 (Arithmetic_handleOptionClick easy 7 1000 ArithmeticSample)
     = Arithmetic_handleOptionClick easy 7 1000 ArithmeticSample
 \<and> pr_isProcessing (Pattern_handleOptionClick easy 2 1000 PatternSample)
 \<and> Pattern_handleOptionClick easy 2 1000 (Pattern_handleOptionClick easy 2 1000 PatternSample)
     = Pattern_handleOptionClick easy 2 1000 PatternSample
 \<and> sp_isProcessing (Stroop_handleOptionClick easy Blue 1000 StroopSample)
 \<and> Stroop_handleOptionClick easy Blue 1000 (Stroop_handleOptionClick easy Blue 1000 StroopSample)
     = Stroop_handleOptionClick easy Blue 1000 StroopSample
 \<and> ws_isProcessing (WordSort_handleCategoryClick Diet 1000 WordSortSample)
 \<and> WordSort_handleCategoryClick Diet 1000 (WordSort_handleCategoryClick Diet 1000 WordSortSample)
     = WordSort_handleCategoryClick Diet 1000 WordSortSample
 \<and> mm_isChecking (handleCardClick 3 200 MemorySample)
 \<and> handleCardClick 1 1000 (handleCardClick 3 200 MemorySample)
     = handleCardClick 3 200 MemorySample
 \<and> \<not> ar_isProcessing ArithmeticSample \<and> ar_gameActive ArithmeticSample
 \<and> ar_score (twice (Arithmetic_handleOptionClick easy) 7 1000 9 1100 ArithmeticSample) = 10
 \<and> ar_streak (twice (Arithmetic_handleOptionClick easy) 7 1000 9 1100 ArithmeticSample) = 1
 \<and> ar_timers (twice (Arithmetic_handleOptionClick easy) 7 1000 9 1100 ArithmeticSample)
     = [(0, 1400, ArNextProblem)]
 \<and> ar_problemIndex (ArithmeticFeedbackDone 0 \<lparr>pb_answer = 12, pb_options = [12, 13, 11, 15]\<rparr>
       (twice (Arithmetic_handleOptionClick easy) 7 1000 9 1100 ArithmeticSample)) = 1
 \<and> \<not> pr_isProcessing PatternSample \<and> pr_feedback PatternSample = None
 \<and> at_index (pr_questions PatternSample) (pr_currentQuestion PatternSample)
     = Some \<lparr>pq_correctIndex = 2\<rparr>
 \<and> pr_score (twice (Pattern_handleOptionClick easy) 2 1000 0 1100 PatternSample) = 60
 \<and> pr_timers (twice (Pattern_handleOptionClick easy) 2 1000 0 1100 PatternSample) = [(0, 1800, PrAdvance 0)]
 \<and> \<not> sp_isProcessing StroopSample \<and> sp_trial StroopSample = Some StroopTrial
 \<and> sp_score (twice (Stroop_handleOptionClick easy) Blue 1000 Red 1100 StroopSample) = 15
 \<and> sp_streak (twice (Stroop_handleOptionClick easy) Blue 1000 Red 1100 StroopSample) = 1
 \<and> sp_roundRef (twice (Stroop_handleOptionClick easy) Blue 1000 Red 1100 StroopSample) = 2
 \<and> sp_timers (twice (Stroop_handleOptionClick easy) Blue 1000 Red 1100 StroopSample) = [(0, 1400, SpLoadTrial)]
 \<and> \<not> ws_isProcessing WordSortSample \<and> \<not> ws_gameOverRef WordSortSample
 \<and> \<not> ws_gameOver WordSortSample
 \<and> at_index (ws_words WordSortSample) (ws_currentIndex WordSortSample)
     = Some \<lparr>wi_text = 0, wi_category = Diet\<rparr>
 \<and> ws_score (twice WordSort_handleCategoryClick Diet 1000 Sleep 1100 WordSortSample) = 10
 \<and> ws_streak (twice WordSort_handleCategoryClick Diet 1000 Sleep 1100 WordSortSample) = 1
 \<and> ws_timers (twice WordSort_handleCategoryClick Diet 1000 Sleep 1100 WordSortSample) = [(0, 1400, WsAdvance 0)]
 \<and> pm_phase (PathBlank easy) \<noteq> PInput
 \<and> Path_handleCellClick easy 4 1000 (PathBlank easy) = PathBlank easy
 \<and> rt_phase ReactionInit \<noteq> Ready \<and> rt_phase ReactionInit \<noteq> Signal
 \<and> handleCircleClick easy 1000 ReactionInit = ReactionInit
 \<and> ds_phase (handleConfirm easy 500 DigitSample) \<noteq> DInput
 \<and> handleConfirm easy 1000 (handleConfirm easy 500 DigitSample) = handleConfirm easy 500 DigitSample
 \<and> handleNumberPress 5 (handleConfirm easy 500 DigitSample) = handleConfirm easy 500 DigitSample
 \<and> handleBackspace (handleConfirm easy 500 DigitSample) = handleConfirm easy 500 DigitSample
 \<and> sg_finished (Schulte_handleCellClick easy 3 SchulteSample)
 \<and> Schulte_handleCellClick easy 1 (Schulte_handleCellClick easy 3 SchulteSample) = Schulte_handleCellClick easy 3 SchulteSample"
proof -
  let ?pb = "\<lparr>pb_answer = 12, pb_options = [12, 13, 11, 15]\<rparr>"
  note T = flagged_guards_ignore_input
    [where a = "Arithmetic_handleOptionClick easy 7 1000 ArithmeticSample" and d = easy and v = 7
       and now = 1000 and p = "Pattern_handleOptionClick easy 2 1000 PatternSample" and i = 2
       and t = "Stroop_handleOptionClick easy Blue 1000 StroopSample" and c = Blue
       and w = "WordSort_handleCategoryClick Diet 1000 WordSortSample" and k = Diet
       and m = "handleCardClick 3 200 MemorySample" and j = 1
       and afresh = ArithmeticSample and v' = 9 and now' = 1100 and pb = ?pb
       and pfresh = PatternSample and i' = 0 and q = "\<lparr>pq_correctIndex = 2\<rparr>"
       and tfresh = StroopSample and c' = Red and tr = StroopTrial
       and wfresh = WordSortSample and k' = Sleep and wd = "\<lparr>wi_text = 0, wi_category = Diet\<rparr>"
       and pth = "PathBlank easy" and cell = 4 and r = ReactionInit
       and g = "handleConfirm easy 500 DigitSample" and n = 5
       and h = "Schulte_handleCellClick easy 3 SchulteSample"]
  have ha: "ar_isProcessing (Arithmetic_handleOptionClick easy 7 1000 ArithmeticSample)"
    "\<not> ar_isProcessing ArithmeticSample" "ar_gameActive ArithmeticSample"
    "pb_answer (ar_currentProblem ArithmeticSample) = 7" "ar_score ArithmeticSample = 0"
    "ar_streak ArithmeticSample = 0" "ar_timers ArithmeticSample = []"
    "ar_nextId ArithmeticSample = 0" "ar_problemIndex ArithmeticSample = 0"
    by (simp_all add: ArithmeticSample_def ArithmeticInit_def Arithmetic_handleOptionClick_def Let_def)
  have hp: "pr_isProcessing (Pattern_handleOptionClick easy 2 1000 PatternSample)"
    "\<not> pr_isProcessing PatternSample" "pr_feedback PatternSample = None"
    "at_index (pr_questions PatternSample) (pr_currentQuestion PatternSample)
       = Some \<lparr>pq_correctIndex = 2\<rparr>"
    "pr_score PatternSample = 0" "pr_timers PatternSample = []" "pr_nextId PatternSample = 0"
    "pr_questionStartTime PatternSample = 0" "pr_currentQuestion PatternSample = 0"
    by (simp_all add: PatternSample_def PatternInit_def Pattern_handleOptionClick_def Let_def at_index_def)
  have hs: "sp_isProcessing (Stroop_handleOptionClick easy Blue 1000 StroopSample)"
    "\<not> sp_isProcessing StroopSample" "sp_trial StroopSample = Some StroopTrial"
    "tl_correctAnswer StroopTrial = Blue" "sp_score StroopSample = 0" "sp_streak StroopSample = 0"
    "sp_roundRef StroopSample = 1" "sp_timers StroopSample = []" "sp_nextId StroopSample = 0"
    "sp_trialStartTime StroopSample = 0"
    by (simp_all add: StroopSample_def StroopInit_def loadTrial_def Stroop_handleOptionClick_def Let_def
        StroopTrial_def)
  have hw: "ws_isProcessing (WordSort_handleCategoryClick Diet 1000 WordSortSample)"
    "\<not> ws_isProcessing WordSortSample" "\<not> ws_gameOverRef WordSortSample"
    "\<not> ws_gameOver WordSortSample"
    "at_index (ws_words WordSortSample) (ws_currentIndex WordSortSample)
       = Some \<lparr>wi_text = 0, wi_category = Diet\<rparr>"
    "ws_score WordSortSample = 0" "ws_streak WordSortSample = 0" "ws_timers WordSortSample = []"
    "ws_nextId WordSortSample = 0" "ws_currentIndex WordSortSample = 0"
    by (simp_all add: WordSortSample_def WordSortInit_def WordSort_handleCategoryClick_def Let_def at_index_def)
  have hm: "mm_isChecking (handleCardClick 3 200 MemorySample)"
    by code_simp
  have hq: "pm_phase (PathBlank easy) \<noteq> PInput"
    by (simp add: PathBlank_def)
  have hr: "rt_phase ReactionInit \<noteq> Ready" "rt_phase ReactionInit \<noteq> Signal"
    by (simp_all add: ReactionInit_def)
  have hg: "ds_phase (handleConfirm easy 500 DigitSample) \<noteq> DInput"
    by code_simp
  have hh: "sg_finished (Schulte_handleCellClick easy 3 SchulteSample)"
    by code_simp
  show ?thesis
    using T ha hp hs hw hm hq hr hg hh
    by (simp add: SPEED_BONUS_def SPEED_THRESHOLD_MS_def twice_def Arithmetic_handleOptionClick_twice
        Pattern_handleOptionClick_twice Stroop_handleOptionClick_twice WordSort_handleCategoryClick_twice)
qed

text \<open>
  Claim C6, evaluated on the hard session \<^const>\<open>reopenedTrial\<close>, in the reaction game,
  whose guard is the phase. The click on the trick signal at 1600 ms is handled: a time of
  100 ms is recorded, the trial counter goes to 1, the phase is \<^verbatim>\<open>result\<close> and the
  advance is scheduled for 3100 ms; the timer that hides the trick signal stays pending.
  It reopens the trial, and the second click, at 2700 ms and so before the advance fires,
  is handled too: a second time is recorded and scored, the trial counter goes to 2 and a
  second advance is scheduled. With the first click 149.625 ms after the trick signal
  both clicks add to the score, 650 and 550.
\<close>

theorem second_click_handled_while_advance_pending:
  "map_option (\<lambda>s. (rt_phase s, rt_reactionTimes s, rt_currentTrial s, rt_timers s))
      (ReactionRun hard ReactionInit (flashClicked 1600))
     = Some (Result, [100], 1, [(2, 1650, TrickElapsed), (3, 3100, AdvanceTrial)])
   \<and> map_option (\<lambda>s. (rt_phase s, rt_reactionTimes s, rt_currentTrial s, rt_timers s))
      (ReactionRun hard ReactionInit (reopenedTrial 1600))
     = Some (Result, [100, 250], 2, [(3, 3100, AdvanceTrial), (5, 4200, AdvanceTrial)])
   \<and> map_option (\<lambda>s. (map calculateTrialScore (rt_reactionTimes s), rt_currentTrial s))
      (ReactionRun hard ReactionInit (flashClicked (1500 + 1197 / 8)))
     = Some ([650], 1)
   \<and> map_option (\<lambda>s. (map calculateTrialScore (rt_reactionTimes s), rt_currentTrial s))
      (ReactionRun hard ReactionInit (reopenedTrial (1500 + 1197 / 8)))
     = Some ([650, 550], 2)"
  by code_simp

end
